theory Spec2Isabelle
  imports Main "HOL-Library.Word"
begin

unbundle bit_operations_syntax

section \<open>Values exchanged with the platform\<close>

text \<open>
  The library \<^verbatim>\<open>html-js/microbit-ble-lib.js\<close> is a class \<^verbatim>\<open>MicrobitBLE\<close> on top of the Web
  Bluetooth API. Bytes are 8-bit words; a JavaScript string is a sequence of UTF-16 code
  units; the names of events and services, which the source writes as ASCII literals, are
  HOL strings.
\<close>

type_synonym byte = "8 word"
type_synonym code_unit = "16 word"
type_synonym jsstring = "code_unit list"
type_synonym uuid = string
type_synonym dataview = "byte list"

text \<open>
  What a \<^verbatim>\<open>throw\<close> or a rejected promise carries: an \<^verbatim>\<open>Error\<close> made by the library with its
  message, the \<^verbatim>\<open>RangeError\<close> of a \<^verbatim>\<open>DataView\<close> read past the end, or whatever the platform
  or a user callback raises (a \<^verbatim>\<open>DOMException\<close> name, any other thrown value).
\<close>

datatype error = Error string | RangeError | DOMException string | Thrown string

datatype device = BluetoothDevice (dev_id: nat) (dev_name: "string option")
datatype server = GATTServer nat
datatype service = GATTService nat
datatype characteristic = GATTCharacteristic nat
datatype handler = Handler nat

subsection \<open>The UUID table\<close>

definition UART_SERVICE :: uuid where "UART_SERVICE = ''6e400001-b5a3-f393-e0a9-e50e24dcca9e''"
definition UART_TX :: uuid where "UART_TX = ''6e400002-b5a3-f393-e0a9-e50e24dcca9e''"
definition UART_RX :: uuid where "UART_RX = ''6e400003-b5a3-f393-e0a9-e50e24dcca9e''"
definition TEMPERATURE_SERVICE :: uuid where
  "TEMPERATURE_SERVICE = ''e95d6100-251d-470a-a062-fa1922dfa9a8''"
definition TEMPERATURE_DATA :: uuid where
  "TEMPERATURE_DATA = ''e95d9250-251d-470a-a062-fa1922dfa9a8''"
definition TEMPERATURE_PERIOD :: uuid where
  "TEMPERATURE_PERIOD = ''e95d1b25-251d-470a-a062-fa1922dfa9a8''"
definition ACCELEROMETER_SERVICE :: uuid where
  "ACCELEROMETER_SERVICE = ''e95d0753-251d-470a-a062-fa1922dfa9a8''"
definition ACCELEROMETER_DATA :: uuid where
  "ACCELEROMETER_DATA = ''e95dca4b-251d-470a-a062-fa1922dfa9a8''"
definition ACCELEROMETER_PERIOD :: uuid where
  "ACCELEROMETER_PERIOD = ''e95dfb24-251d-470a-a062-fa1922dfa9a8''"
definition BUTTON_SERVICE :: uuid where
  "BUTTON_SERVICE = ''e95d9882-251d-470a-a062-fa1922dfa9a8''"
definition BUTTON_A :: uuid where "BUTTON_A = ''e95dda90-251d-470a-a062-fa1922dfa9a8''"
definition BUTTON_B :: uuid where "BUTTON_B = ''e95dda91-251d-470a-a062-fa1922dfa9a8''"
definition MAGNETOMETER_SERVICE :: uuid where
  "MAGNETOMETER_SERVICE = ''e95df2d8-251d-470a-a062-fa1922dfa9a8''"
definition MAGNETOMETER_DATA :: uuid where
  "MAGNETOMETER_DATA = ''e95dfb11-251d-470a-a062-fa1922dfa9a8''"
definition MAGNETOMETER_PERIOD :: uuid where
  "MAGNETOMETER_PERIOD = ''e95d386c-251d-470a-a062-fa1922dfa9a8''"
definition MAGNETOMETER_BEARING :: uuid where
  "MAGNETOMETER_BEARING = ''e95d9715-251d-470a-a062-fa1922dfa9a8''"
definition LED_SERVICE :: uuid where "LED_SERVICE = ''e95dd91d-251d-470a-a062-fa1922dfa9a8''"
definition LED_TEXT :: uuid where "LED_TEXT = ''e95d93ee-251d-470a-a062-fa1922dfa9a8''"

text \<open>\<^verbatim>\<open>Object.values(MICROBIT_UUIDS)\<close>, in the order the table is written.\<close>

definition MICROBIT_UUIDS_values :: "uuid list" where
  "MICROBIT_UUIDS_values =
     [UART_SERVICE, UART_TX, UART_RX,
      TEMPERATURE_SERVICE, TEMPERATURE_DATA, TEMPERATURE_PERIOD,
      ACCELEROMETER_SERVICE, ACCELEROMETER_DATA, ACCELEROMETER_PERIOD,
      BUTTON_SERVICE, BUTTON_A, BUTTON_B,
      MAGNETOMETER_SERVICE, MAGNETOMETER_DATA, MAGNETOMETER_PERIOD, MAGNETOMETER_BEARING,
      LED_SERVICE, LED_TEXT]"

subsection \<open>Reading a notification value: \<^verbatim>\<open>DataView\<close>\<close>

text \<open>
  \<^verbatim>\<open>event.target.value\<close> is a \<^verbatim>\<open>DataView\<close> over the bytes of the notification. Its getters
  are the platform's; they are written here as ECMAScript defines them (GetViewValue and
  RawBytesToNumeric): a read that does not fit in the view throws \<^verbatim>\<open>RangeError\<close>, the bytes
  are put in little-endian order and read as an unsigned number, and a signed getter
  subtracts \<open>2 ^ bits\<close> from a number that is at least \<open>2 ^ (bits - 1)\<close>.
\<close>

fun le_value :: "byte list \<Rightarrow> int" where
  "le_value [] = 0"
| "le_value (b # bs) = uint b + 256 * le_value bs"

definition getViewValue :: "nat \<Rightarrow> bool \<Rightarrow> nat \<Rightarrow> bool \<Rightarrow> dataview \<Rightarrow> error + int" where
  "getViewValue elementSize isSigned byteOffset littleEndian view =
     (if byteOffset + elementSize > length view then Inl RangeError
      else
        let rawBytes = take elementSize (drop byteOffset view);
            rawBytes = (if littleEndian then rawBytes else rev rawBytes);
            intValue = le_value rawBytes
        in Inr (if isSigned \<and> intValue \<ge> 2 ^ (8 * elementSize - 1)
                then intValue - 2 ^ (8 * elementSize) else intValue))"

definition getInt8 :: "nat \<Rightarrow> dataview \<Rightarrow> error + int" where
  "getInt8 byteOffset view = getViewValue 1 True byteOffset False view"

definition getUint8 :: "nat \<Rightarrow> dataview \<Rightarrow> error + int" where
  "getUint8 byteOffset view = getViewValue 1 False byteOffset False view"

definition getInt16 :: "nat \<Rightarrow> bool \<Rightarrow> dataview \<Rightarrow> error + int" where
  "getInt16 byteOffset littleEndian view = getViewValue 2 True byteOffset littleEndian view"

definition getUint16 :: "nat \<Rightarrow> bool \<Rightarrow> dataview \<Rightarrow> error + int" where
  "getUint16 byteOffset littleEndian view = getViewValue 2 False byteOffset littleEndian view"

subsection \<open>Encoding outgoing text: \<^verbatim>\<open>TextEncoder\<close>\<close>

text \<open>
  \<^verbatim>\<open>new TextEncoder().encode(text)\<close> is the platform's as well. It is written here as the
  Encoding Standard defines it: the string is read as scalar values (a high surrogate
  followed by a low surrogate is one supplementary code point, any other surrogate becomes
  U+FFFD), and each scalar value is written in UTF-8.
\<close>

definition is_high_surrogate :: "code_unit \<Rightarrow> bool" where
  "is_high_surrogate u \<longleftrightarrow> 0xD800 \<le> unat u \<and> unat u \<le> 0xDBFF"

definition is_low_surrogate :: "code_unit \<Rightarrow> bool" where
  "is_low_surrogate u \<longleftrightarrow> 0xDC00 \<le> unat u \<and> unat u \<le> 0xDFFF"

definition single_unit :: "code_unit \<Rightarrow> nat" where
  "single_unit u = (if is_high_surrogate u \<or> is_low_surrogate u then 0xFFFD else unat u)"

fun scalar_values :: "jsstring \<Rightarrow> nat list" where
  "scalar_values [] = []"
| "scalar_values [u] = [single_unit u]"
| "scalar_values (u # v # us) =
     (if is_high_surrogate u \<and> is_low_surrogate v
      then (0x10000 + (unat u - 0xD800) * 0x400 + (unat v - 0xDC00)) # scalar_values us
      else single_unit u # scalar_values (v # us))"

definition utf8_bytes :: "nat \<Rightarrow> byte list" where
  "utf8_bytes c =
     (if c < 0x80 then [of_nat c]
      else if c < 0x800 then [of_nat (0xC0 + c div 0x40), of_nat (0x80 + c mod 0x40)]
      else if c < 0x10000 then
        [of_nat (0xE0 + c div 0x1000), of_nat (0x80 + c div 0x40 mod 0x40),
         of_nat (0x80 + c mod 0x40)]
      else
        [of_nat (0xF0 + c div 0x40000), of_nat (0x80 + c div 0x1000 mod 0x40),
         of_nat (0x80 + c div 0x40 mod 0x40), of_nat (0x80 + c mod 0x40)])"

definition TextEncoder_encode :: "jsstring \<Rightarrow> byte list" where
  "TextEncoder_encode text = concat (map utf8_bytes (scalar_values text))"

text \<open>An ASCII literal of the source as a JavaScript string.\<close>

definition js :: "string \<Rightarrow> jsstring" where
  "js cs = map (\<lambda>c. of_nat (of_char c)) cs"

section \<open>The manager and its surroundings\<close>

subsection \<open>Events\<close>

text \<open>
  The object passed to the callbacks of each event: \<^verbatim>\<open>{ status: 'requesting' }\<close>,
  \<^verbatim>\<open>{ status: 'connected', deviceName }\<close>, \<^verbatim>\<open>{ deviceName }\<close>, \<^verbatim>\<open>{ text }\<close>, \<^verbatim>\<open>{ temperature }\<close>,
  \<^verbatim>\<open>{ x, y, z }\<close>, \<^verbatim>\<open>{ pressed }\<close>, \<^verbatim>\<open>{ bearing }\<close>, \<^verbatim>\<open>{ service }\<close>, \<^verbatim>\<open>{ service, error }\<close> and
  \<^verbatim>\<open>{ type, error }\<close>.
\<close>

datatype payload =
    StatusRequesting
  | StatusConnected "string option"
  | DeviceName "string option"
  | Text jsstring
  | Temperature int
  | XYZ int int int
  | Pressed bool
  | Bearing int
  | ServiceStarted string
  | ServiceFailed string error
  | Failure string error

text \<open>The closures the start methods attach to \<^verbatim>\<open>characteristicvaluechanged\<close>.\<close>

datatype listener =
  UartTx | TemperatureData | AccelerometerData | ButtonA | ButtonB
  | MagnetometerData | MagnetometerBearing

text \<open>The promises the library awaits.\<close>

datatype request =
    RequestDevice string "uuid list"
  | GattConnect device
  | GetPrimaryService server uuid
  | GetCharacteristic service uuid
  | StartNotifications characteristic
  | WriteValue characteristic "byte list"
  | SetTimeout nat

text \<open>
  What a run does that can be seen from outside, in the order it happens: a call of
  \<^verbatim>\<open>_emit\<close>, the call of one registered callback, a line on the console, a promise awaited,
  a listener attached to a characteristic or to the device.
\<close>

datatype action =
    Emit string payload
  | Called handler string payload
  | ConsoleError string error
  | ConsoleLog string
  | Await request
  | Listen characteristic listener
  | ListenDisconnected device

subsection \<open>The platform\<close>

text \<open>
  Everything outside the class is a parameter: a state \<open>'p\<close> of the outside world (the
  radio, the device, the page) and the answers of the Web Bluetooth calls in that state.
  A callback registered with \<^verbatim>\<open>on\<close> is known by its identity; what it does when called, to
  the outside world only, and whether it throws, is the environment's too. Waiting lets
  the outside world move on.
\<close>

record 'p env =
  requestDevice :: "string \<Rightarrow> uuid list \<Rightarrow> 'p \<Rightarrow> (error + device) \<times> 'p"
  gatt_connect :: "device \<Rightarrow> 'p \<Rightarrow> (error + server) \<times> 'p"
  connected :: "server \<Rightarrow> 'p \<Rightarrow> bool"
  getPrimaryService :: "server \<Rightarrow> uuid \<Rightarrow> 'p \<Rightarrow> (error + service) \<times> 'p"
  getCharacteristic :: "service \<Rightarrow> uuid \<Rightarrow> 'p \<Rightarrow> (error + characteristic) \<times> 'p"
  startNotifications :: "characteristic \<Rightarrow> 'p \<Rightarrow> (error + unit) \<times> 'p"
  writeValue :: "characteristic \<Rightarrow> byte list \<Rightarrow> 'p \<Rightarrow> (error + unit) \<times> 'p"
  setTimeout :: "nat \<Rightarrow> 'p \<Rightarrow> 'p"
  run_handler :: "handler \<Rightarrow> payload \<Rightarrow> 'p \<Rightarrow> (error + unit) \<times> 'p"
  TextDecoder_decode :: "byte list \<Rightarrow> jsstring"

subsection \<open>The fields of \<^verbatim>\<open>MicrobitBLE\<close>\<close>

record config =
  deviceNamePrefix :: string
  autoStartServices :: bool
  serviceDelay :: nat

text \<open>
  The argument of the constructor: each key is absent or has a value of the type the
  library expects.
\<close>

record options =
  opt_deviceNamePrefix :: "string option"
  opt_autoStartServices :: "bool option"
  opt_serviceDelay :: "nat option"

text \<open>
  The instance, together with the outside world it runs in and the actions done so far.
\<close>

record 'p microbit =
  config :: config
  device :: "device option"
  server :: "server option"
  services :: "string \<rightharpoonup> service"
  characteristics :: "string \<rightharpoonup> characteristic"
  eventHandlers :: "string \<rightharpoonup> handler list"
  outside :: 'p
  trace :: "action list"

subsection \<open>Sequencing, exceptions and promises\<close>

text \<open>
  A method takes the state and returns what it throws or returns, and the state it leaves.
  An \<^verbatim>\<open>async\<close> method is the same: its rejection is the \<open>Inl\<close>. While it waits the
  outside world moves on as the platform decides, so the link can drop between two calls
  and the calls after it be rejected; the callbacks of the manager itself are steps of
  their own (\<open>handleDisconnection\<close>, \<open>characteristicvaluechanged\<close>), taken from whatever
  state the manager is in.
\<close>

type_synonym ('p, 'a) prog = "'p microbit \<Rightarrow> (error + 'a) \<times> 'p microbit"

definition return :: "'a \<Rightarrow> ('p, 'a) prog" where
  "return x s = (Inr x, s)"

definition throw :: "error \<Rightarrow> ('p, 'a) prog" where
  "throw e s = (Inl e, s)"

definition bind :: "('p, 'a) prog \<Rightarrow> ('a \<Rightarrow> ('p, 'b) prog) \<Rightarrow> ('p, 'b) prog" where
  "bind m k s = (case m s of (Inl e, s') \<Rightarrow> (Inl e, s') | (Inr x, s') \<Rightarrow> k x s')"

definition seq :: "('p, 'a) prog \<Rightarrow> ('p, 'b) prog \<Rightarrow> ('p, 'b) prog" where
  "seq m n = bind m (\<lambda>_. n)"

definition try_catch :: "('p, 'a) prog \<Rightarrow> (error \<Rightarrow> ('p, 'a) prog) \<Rightarrow> ('p, 'a) prog" where
  "try_catch m h s = (case m s of (Inl e, s') \<Rightarrow> h e s' | (Inr x, s') \<Rightarrow> (Inr x, s'))"

definition exec :: "('p microbit \<Rightarrow> 'p microbit) \<Rightarrow> ('p, unit) prog" where
  "exec f s = (Inr (), f s)"

definition lift :: "error + 'a \<Rightarrow> ('p, 'a) prog" where
  "lift r s = (r, s)"

definition await :: "request \<Rightarrow> ('p \<Rightarrow> (error + 'a) \<times> 'p) \<Rightarrow> ('p, 'a) prog" where
  "await req f s =
     (case f (outside s) of
        (r, p') \<Rightarrow> (r, s\<lparr>outside := p', trace := trace s @ [Await req]\<rparr>))"

definition sleep :: "'p env \<Rightarrow> nat \<Rightarrow> ('p, unit) prog" where
  "sleep P ms = await (SetTimeout ms) (\<lambda>p. (Inr (), setTimeout P ms p))"

definition console_log :: "string \<Rightarrow> ('p, unit) prog" where
  "console_log msg = exec (\<lambda>s. s\<lparr>trace := trace s @ [ConsoleLog msg]\<rparr>)"

section \<open>The class \<^verbatim>\<open>MicrobitBLE\<close>\<close>

subsection \<open>Construction\<close>

definition initializeEventHandlers :: "'p microbit \<Rightarrow> 'p microbit" where
  "initializeEventHandlers s =
     foldl (\<lambda>s event. s\<lparr>eventHandlers := (eventHandlers s)(event \<mapsto> [])\<rparr>) s
       [''connection'', ''disconnection'', ''uart:received'', ''temperature:changed'',
        ''accelerometer:changed'', ''button:a:changed'', ''button:b:changed'',
        ''magnetometer:changed'', ''magnetometer:bearing:changed'', ''service:started'',
        ''service:failed'', ''error'']"

text \<open>
  Each default is followed by \<^verbatim>\<open>...config\<close>, so a key that is present keeps the value it
  was given.
\<close>

definition constructor :: "options \<Rightarrow> 'p \<Rightarrow> 'p microbit" where
  "constructor opts p =
     initializeEventHandlers
       \<lparr>config =
          \<lparr>deviceNamePrefix =
             (case opt_deviceNamePrefix opts of None \<Rightarrow> ''BBC micro:bit'' | Some v \<Rightarrow> v),
           autoStartServices =
             (case opt_autoStartServices opts of None \<Rightarrow> True | Some v \<Rightarrow> v),
           serviceDelay = (case opt_serviceDelay opts of None \<Rightarrow> 300 | Some v \<Rightarrow> v)\<rparr>,
        device = None, server = None, services = Map.empty, characteristics = Map.empty,
        eventHandlers = Map.empty, outside = p, trace = []\<rparr>"

subsection \<open>Event fan-out\<close>

definition on :: "string \<Rightarrow> handler \<Rightarrow> 'p microbit \<Rightarrow> 'p microbit" where
  "on event h s =
     (let s1 = (if eventHandlers s event = None
                then s\<lparr>eventHandlers := (eventHandlers s)(event \<mapsto> [])\<rparr> else s)
      in s1\<lparr>eventHandlers := (eventHandlers s1)(event \<mapsto> the (eventHandlers s1 event) @ [h])\<rparr>)"

text \<open>One turn of the \<^verbatim>\<open>forEach\<close>: the call in its \<^verbatim>\<open>try\<close>, the \<^verbatim>\<open>console.error\<close> in its \<^verbatim>\<open>catch\<close>.\<close>

definition invoke :: "'p env \<Rightarrow> string \<Rightarrow> payload \<Rightarrow> handler \<Rightarrow> 'p microbit \<Rightarrow> 'p microbit" where
  "invoke P event data h s =
     (case run_handler P h data (outside s) of
        (Inr _, p') \<Rightarrow> s\<lparr>outside := p', trace := trace s @ [Called h event data]\<rparr>
      | (Inl e, p') \<Rightarrow>
          s\<lparr>outside := p', trace := trace s @ [Called h event data, ConsoleError event e]\<rparr>)"

fun forEach :: "'p env \<Rightarrow> string \<Rightarrow> payload \<Rightarrow> handler list \<Rightarrow> 'p microbit \<Rightarrow> 'p microbit" where
  "forEach P event data [] s = s"
| "forEach P event data (h # hs) s = forEach P event data hs (invoke P event data h s)"

definition emit :: "'p env \<Rightarrow> string \<Rightarrow> payload \<Rightarrow> 'p microbit \<Rightarrow> 'p microbit" where
  "emit P event data s =
     (let handlers = (case eventHandlers s event of None \<Rightarrow> [] | Some hs \<Rightarrow> hs)
      in forEach P event data handlers (s\<lparr>trace := trace s @ [Emit event data]\<rparr>))"

subsection \<open>Disconnection\<close>

definition handleDisconnection :: "'p env \<Rightarrow> 'p microbit \<Rightarrow> 'p microbit" where
  "handleDisconnection P s =
     (let s1 = s\<lparr>services := Map.empty\<rparr>;
          s2 = s1\<lparr>characteristics := Map.empty\<rparr>
      in emit P ''disconnection''
           (DeviceName (case device s2 of None \<Rightarrow> None | Some d \<Rightarrow> dev_name d)) s2)"

definition isServiceStarted :: "string \<Rightarrow> 'p microbit \<Rightarrow> bool" where
  "isServiceStarted serviceName s \<longleftrightarrow> services s serviceName \<noteq> None"

subsection \<open>Notification listeners\<close>

text \<open>
  The body of each closure passed to \<^verbatim>\<open>addEventListener('characteristicvaluechanged', ...)\<close>,
  applied to the value of the notification. A getter that throws ends the closure before
  its \<^verbatim>\<open>_emit\<close>.
\<close>

fun characteristicvaluechanged :: "'p env \<Rightarrow> listener \<Rightarrow> dataview \<Rightarrow> ('p, unit) prog" where
  "characteristicvaluechanged P UartTx v =
     exec (emit P ''uart:received'' (Text (TextDecoder_decode P v)))"
| "characteristicvaluechanged P TemperatureData v =
     bind (lift (getInt8 0 v)) (\<lambda>temperature.
     exec (emit P ''temperature:changed'' (Temperature temperature)))"
| "characteristicvaluechanged P AccelerometerData v =
     bind (lift (getInt16 0 True v)) (\<lambda>x.
     bind (lift (getInt16 2 True v)) (\<lambda>y.
     bind (lift (getInt16 4 True v)) (\<lambda>z.
     exec (emit P ''accelerometer:changed'' (XYZ x y z)))))"
| "characteristicvaluechanged P ButtonA v =
     bind (lift (getUint8 0 v)) (\<lambda>state.
     exec (emit P ''button:a:changed'' (Pressed (state = 1))))"
| "characteristicvaluechanged P ButtonB v =
     bind (lift (getUint8 0 v)) (\<lambda>state.
     exec (emit P ''button:b:changed'' (Pressed (state = 1))))"
| "characteristicvaluechanged P MagnetometerData v =
     bind (lift (getInt16 0 True v)) (\<lambda>x.
     bind (lift (getInt16 2 True v)) (\<lambda>y.
     bind (lift (getInt16 4 True v)) (\<lambda>z.
     exec (emit P ''magnetometer:changed'' (XYZ x y z)))))"
| "characteristicvaluechanged P MagnetometerBearing v =
     bind (lift (getUint16 0 True v)) (\<lambda>bearing.
     exec (emit P ''magnetometer:bearing:changed'' (Bearing bearing)))"

subsection \<open>Starting the services\<close>

text \<open>The guard \<^verbatim>\<open>if (!this.server?.connected) throw new Error('GATT not connected')\<close>.\<close>

definition require_connected :: "'p env \<Rightarrow> ('p, server) prog" where
  "require_connected P s =
     (case server s of
        None \<Rightarrow> throw (Error ''GATT not connected'') s
      | Some sv \<Rightarrow>
          if connected P sv (outside s) then return sv s
          else throw (Error ''GATT not connected'') s)"

definition primaryService :: "'p env \<Rightarrow> server \<Rightarrow> uuid \<Rightarrow> ('p, service) prog" where
  "primaryService P sv u = await (GetPrimaryService sv u) (getPrimaryService P sv u)"

definition characteristic_of :: "'p env \<Rightarrow> service \<Rightarrow> uuid \<Rightarrow> ('p, characteristic) prog" where
  "characteristic_of P svc u = await (GetCharacteristic svc u) (getCharacteristic P svc u)"

definition notifications :: "'p env \<Rightarrow> characteristic \<Rightarrow> ('p, unit) prog" where
  "notifications P c = await (StartNotifications c) (startNotifications P c)"

definition addEventListener :: "characteristic \<Rightarrow> listener \<Rightarrow> ('p, unit) prog" where
  "addEventListener c l = exec (\<lambda>s. s\<lparr>trace := trace s @ [Listen c l]\<rparr>)"

definition services_set :: "string \<Rightarrow> service \<Rightarrow> ('p, unit) prog" where
  "services_set key svc = exec (\<lambda>s. s\<lparr>services := (services s)(key \<mapsto> svc)\<rparr>)"

definition characteristics_set :: "string \<Rightarrow> characteristic \<Rightarrow> ('p, unit) prog" where
  "characteristics_set key c = exec (\<lambda>s. s\<lparr>characteristics := (characteristics s)(key \<mapsto> c)\<rparr>)"

text \<open>The \<^verbatim>\<open>catch\<close> block every start method ends with.\<close>

definition failed :: "'p env \<Rightarrow> string \<Rightarrow> error \<Rightarrow> ('p, unit) prog" where
  "failed P name err =
     seq (exec (emit P ''service:failed'' (ServiceFailed name err))) (throw err)"

definition startUART :: "'p env \<Rightarrow> ('p, unit) prog" where
  "startUART P =
     try_catch (
        bind (require_connected P) (\<lambda>sv.
        bind (primaryService P sv UART_SERVICE) (\<lambda>svc.
        seq (services_set ''uart'' svc) (
        bind (characteristic_of P svc UART_RX) (\<lambda>rxChar.
        seq (characteristics_set ''uart:rx'' rxChar) (
        bind (characteristic_of P svc UART_TX) (\<lambda>txChar.
        seq (notifications P txChar) (
        seq (addEventListener txChar UartTx) (
        seq (characteristics_set ''uart:tx'' txChar) (
        exec (emit P ''service:started'' (ServiceStarted ''uart''))))))))))))
       (failed P ''uart'')"

definition startTemperature :: "'p env \<Rightarrow> ('p, unit) prog" where
  "startTemperature P =
     try_catch (
        bind (require_connected P) (\<lambda>sv.
        bind (primaryService P sv TEMPERATURE_SERVICE) (\<lambda>svc.
        seq (services_set ''temperature'' svc) (
        bind (characteristic_of P svc TEMPERATURE_DATA) (\<lambda>dataChar.
        seq (notifications P dataChar) (
        seq (addEventListener dataChar TemperatureData) (
        seq (characteristics_set ''temperature:data'' dataChar) (
        exec (emit P ''service:started'' (ServiceStarted ''temperature''))))))))))
       (failed P ''temperature'')"

definition startAccelerometer :: "'p env \<Rightarrow> ('p, unit) prog" where
  "startAccelerometer P =
     try_catch (
        bind (require_connected P) (\<lambda>sv.
        bind (primaryService P sv ACCELEROMETER_SERVICE) (\<lambda>svc.
        seq (services_set ''accelerometer'' svc) (
        bind (characteristic_of P svc ACCELEROMETER_DATA) (\<lambda>dataChar.
        seq (notifications P dataChar) (
        seq (addEventListener dataChar AccelerometerData) (
        seq (characteristics_set ''accelerometer:data'' dataChar) (
        exec (emit P ''service:started'' (ServiceStarted ''accelerometer''))))))))))
       (failed P ''accelerometer'')"

definition startButtons :: "'p env \<Rightarrow> ('p, unit) prog" where
  "startButtons P =
     try_catch (
        bind (require_connected P) (\<lambda>sv.
        bind (primaryService P sv BUTTON_SERVICE) (\<lambda>svc.
        seq (services_set ''buttons'' svc) (
        bind (characteristic_of P svc BUTTON_A) (\<lambda>buttonA.
        seq (notifications P buttonA) (
        seq (addEventListener buttonA ButtonA) (
        seq (characteristics_set ''button:a'' buttonA) (
        bind (characteristic_of P svc BUTTON_B) (\<lambda>buttonB.
        seq (notifications P buttonB) (
        seq (addEventListener buttonB ButtonB) (
        seq (characteristics_set ''button:b'' buttonB) (
        exec (emit P ''service:started'' (ServiceStarted ''buttons''))))))))))))))
       (failed P ''buttons'')"

text \<open>
  The magnetometer probes its two characteristics each in a \<^verbatim>\<open>try\<close> of its own; the
  variable \<^verbatim>\<open>hasData\<close> is the value the two blocks hand on.
\<close>

definition probe_data :: "'p env \<Rightarrow> service \<Rightarrow> ('p, bool) prog" where
  "probe_data P svc =
     try_catch (
        bind (characteristic_of P svc MAGNETOMETER_DATA) (\<lambda>dataChar.
        seq (notifications P dataChar) (
        seq (addEventListener dataChar MagnetometerData) (
        seq (characteristics_set ''magnetometer:data'' dataChar) (
        return True)))))
       (\<lambda>dataError.
          seq (console_log ''Magnetometer data characteristic not available'') (return False))"

definition probe_bearing :: "'p env \<Rightarrow> service \<Rightarrow> bool \<Rightarrow> ('p, bool) prog" where
  "probe_bearing P svc hasData =
     try_catch (
        bind (characteristic_of P svc MAGNETOMETER_BEARING) (\<lambda>bearingChar.
        seq (notifications P bearingChar) (
        seq (addEventListener bearingChar MagnetometerBearing) (
        seq (characteristics_set ''magnetometer:bearing'' bearingChar) (
        return True)))))
       (\<lambda>bearingError.
          seq (console_log ''Magnetometer bearing characteristic not available'')
              (return hasData))"

definition startMagnetometer :: "'p env \<Rightarrow> ('p, unit) prog" where
  "startMagnetometer P =
     try_catch (
        bind (require_connected P) (\<lambda>sv.
        bind (primaryService P sv MAGNETOMETER_SERVICE) (\<lambda>svc.
        seq (services_set ''magnetometer'' svc) (
        bind (probe_data P svc) (\<lambda>hasData0.
        bind (probe_bearing P svc hasData0) (\<lambda>hasData.
        (if hasData then exec (emit P ''service:started'' (ServiceStarted ''magnetometer''))
         else throw (Error ''No magnetometer data available''))))))))
       (failed P ''magnetometer'')"

text \<open>The table of \<^verbatim>\<open>_startAllServices\<close> and its \<^verbatim>\<open>for ... of\<close> loop.\<close>

datatype 'p entry = Entry (name: string) (start_method: "('p, unit) prog") (optional: bool)

definition service_table :: "'p env \<Rightarrow> 'p entry list" where
  "service_table P =
     [Entry ''uart'' (startUART P) False,
      Entry ''temperature'' (startTemperature P) False,
      Entry ''accelerometer'' (startAccelerometer P) False,
      Entry ''buttons'' (startButtons P) False,
      Entry ''magnetometer'' (startMagnetometer P) True]"

definition attempt :: "'p env \<Rightarrow> 'p entry \<Rightarrow> ('p, unit) prog" where
  "attempt P e =
     try_catch
       (seq (start_method e) (\<lambda>s. sleep P (serviceDelay (config s)) s))
       (\<lambda>err.
          if \<not> optional e then exec (emit P ''service:failed'' (ServiceFailed (name e) err))
          else return ())"

fun for_of :: "'p env \<Rightarrow> 'p entry list \<Rightarrow> ('p, unit) prog" where
  "for_of P [] = return ()"
| "for_of P (e # es) = seq (attempt P e) (for_of P es)"

definition startAllServices :: "'p env \<Rightarrow> ('p, unit) prog" where
  "startAllServices P = seq (sleep P 500) (for_of P (service_table P))"

subsection \<open>Outgoing text\<close>

definition write_value :: "'p env \<Rightarrow> characteristic \<Rightarrow> byte list \<Rightarrow> ('p, unit) prog" where
  "write_value P c bytes = await (WriteValue c bytes) (writeValue P c bytes)"

text \<open>The line terminator \<^verbatim>\<open>'\n'\<close> is the code unit 10.\<close>

definition sendUART :: "'p env \<Rightarrow> jsstring \<Rightarrow> ('p, unit) prog" where
  "sendUART P text s =
     (case characteristics s ''uart:rx'' of
        None \<Rightarrow> throw (Error ''UART service not started'') s
      | Some char \<Rightarrow> write_value P char (TextEncoder_encode (text @ js [CHR 0x0A])) s)"

text \<open>
  \<^verbatim>\<open>let service = this.services.get('led'); if (!service) { ... }\<close>: the LED service is
  looked up in the registry and opened on the spot when it is not there.
\<close>

definition led_service :: "'p env \<Rightarrow> server \<Rightarrow> ('p, service) prog" where
  "led_service P sv s =
     (case services s ''led'' of
        Some svc \<Rightarrow> return svc s
      | None \<Rightarrow>
          bind (primaryService P sv LED_SERVICE) (\<lambda>svc.
          seq (services_set ''led'' svc) (return svc)) s)"

definition sendTextToLED :: "'p env \<Rightarrow> jsstring \<Rightarrow> ('p, unit) prog" where
  "sendTextToLED P text =
     try_catch (
        bind (require_connected P) (\<lambda>sv.
        bind (led_service P sv) (\<lambda>svc.
        bind (characteristic_of P svc LED_TEXT) (\<lambda>textChar.
        seq (write_value P textChar (TextEncoder_encode text)) (
        return ())))))
       (\<lambda>err. seq (exec (emit P ''error'' (Failure ''led'' err))) (throw err))"

subsection \<open>Connection\<close>

definition connect :: "'p env \<Rightarrow> ('p, device) prog" where
  "connect P =
     try_catch (
        seq (exec (emit P ''connection'' StatusRequesting)) (
        bind ((\<lambda>s. await (RequestDevice (deviceNamePrefix (config s)) MICROBIT_UUIDS_values)
                 (requestDevice P (deviceNamePrefix (config s)) MICROBIT_UUIDS_values) s)) (\<lambda>d.
        seq (exec (\<lambda>s. s\<lparr>device := Some d\<rparr>)) (
        seq (exec (\<lambda>s. s\<lparr>trace := trace s @ [ListenDisconnected d]\<rparr>)) (
        bind (await (GattConnect d) (gatt_connect P d)) (\<lambda>sv.
        seq (exec (\<lambda>s. s\<lparr>server := Some sv\<rparr>)) (
        seq ((\<lambda>s. if connected P sv (outside s) then return () s
                 else throw (Error ''GATT connection failed'') s)) (
        seq (exec (emit P ''connection'' (StatusConnected (dev_name d)))) (
        seq ((\<lambda>s. if autoStartServices (config s) then startAllServices P s else return () s)) (
        return d))))))))))
       (\<lambda>err. seq (exec (emit P ''error'' (Failure ''connection'' err))) (throw err))"

section \<open>A test bench\<close>

text \<open>
  A platform to run the library on: the link is up or down, the services and
  characteristics whose UUID is listed as missing are rejected with \<^verbatim>\<open>NotFoundError\<close>, a
  write over a link that is down is rejected, and the callbacks listed as throwing throw.
\<close>

fun index_of :: "'a list \<Rightarrow> 'a \<Rightarrow> nat" where
  "index_of [] x = 0"
| "index_of (y # ys) x = (if x = y then 0 else Suc (index_of ys x))"

definition bench :: "bool \<Rightarrow> uuid list \<Rightarrow> handler list \<Rightarrow> unit env" where
  "bench linked missing throwing =
     \<lparr>requestDevice = (\<lambda>prefix uuids p. (Inr (BluetoothDevice 1 (Some ''BBC micro:bit'')), p)),
      gatt_connect = (\<lambda>d p. (Inr (GATTServer (dev_id d)), p)),
      connected = (\<lambda>sv p. linked),
      getPrimaryService = (\<lambda>sv u p.
        (if u \<in> set missing then Inl (DOMException ''NotFoundError'')
         else Inr (GATTService (index_of MICROBIT_UUIDS_values u)), p)),
      getCharacteristic = (\<lambda>svc u p.
        (if u \<in> set missing then Inl (DOMException ''NotFoundError'')
         else Inr (GATTCharacteristic (index_of MICROBIT_UUIDS_values u)), p)),
      startNotifications = (\<lambda>c p. (Inr (), p)),
      writeValue = (\<lambda>c bytes p.
        (if linked then Inr () else Inl (DOMException ''NetworkError''), p)),
      setTimeout = (\<lambda>ms p. p),
      run_handler = (\<lambda>h data p.
        (if h \<in> set throwing then Inl (Thrown ''handler'') else Inr (), p)),
      TextDecoder_decode = (\<lambda>bytes. map ucast bytes)\<rparr>"

text \<open>A manager made with the defaults, and the same once a device and a server are at hand.\<close>

definition fresh :: "unit microbit" where
  "fresh = constructor \<lparr>opt_deviceNamePrefix = None, opt_autoStartServices = None,
                         opt_serviceDelay = None\<rparr> ()"

definition linked_up :: "unit microbit" where
  "linked_up = fresh\<lparr>device := Some (BluetoothDevice 1 (Some ''BBC micro:bit'')),
                      server := Some (GATTServer 1)\<rparr>"

text \<open>The same once \<^verbatim>\<open>startUART\<close> has run on a bench where everything is at hand.\<close>

definition uart_up :: "unit microbit" where
  "uart_up = snd (startUART (bench True [] []) linked_up)"

section \<open>Reading a run\<close>

subsection \<open>Observations on the trace\<close>

text \<open>
  The milestones of a run are its calls of \<^verbatim>\<open>_emit\<close> and its pauses; what was handed to
  \<^verbatim>\<open>writeValue\<close> are its written payloads.
\<close>

fun milestone :: "action \<Rightarrow> bool" where
  "milestone (Emit event data) = True"
| "milestone (Await (SetTimeout ms)) = True"
| "milestone _ = False"

definition milestones :: "action list \<Rightarrow> action list" where
  "milestones t = filter milestone t"

fun written :: "action list \<Rightarrow> byte list list" where
  "written [] = []"
| "written (Await (WriteValue c bytes) # t) = bytes # written t"
| "written (a # t) = written t"

text \<open>
  The callbacks called, in the order of their calls, and the payloads emitted under one
  event name.
\<close>

fun calls :: "action list \<Rightarrow> handler list" where
  "calls [] = []"
| "calls (Called h event data # t) = h # calls t"
| "calls (a # t) = calls t"

fun emitted :: "string \<Rightarrow> action list \<Rightarrow> payload list" where
  "emitted event [] = []"
| "emitted event (Emit e data # t) =
     (if e = event then data # emitted event t else emitted event t)"
| "emitted event (a # t) = emitted event t"

subsection \<open>Turns of the two loops\<close>

text \<open>
  What the callbacks of one \<^verbatim>\<open>_emit\<close> answer, each in the outside world the one before
  left, the outside world the last one leaves, and the actions of one turn of the loop
  given the answer.
\<close>

fun handler_results :: "'p env \<Rightarrow> payload \<Rightarrow> handler list \<Rightarrow> 'p \<Rightarrow> (error + unit) list" where
  "handler_results P data [] p = []"
| "handler_results P data (h # hs) p =
     fst (run_handler P h data p) # handler_results P data hs (snd (run_handler P h data p))"

fun handlers_outside :: "'p env \<Rightarrow> payload \<Rightarrow> handler list \<Rightarrow> 'p \<Rightarrow> 'p" where
  "handlers_outside P data [] p = p"
| "handlers_outside P data (h # hs) p =
     handlers_outside P data hs (snd (run_handler P h data p))"

fun turn :: "string \<Rightarrow> payload \<Rightarrow> handler \<Rightarrow> error + unit \<Rightarrow> action list" where
  "turn event data h (Inr _) = [Called h event data]"
| "turn event data h (Inl e) = [Called h event data, ConsoleError event e]"

definition registered :: "'p microbit \<Rightarrow> string \<Rightarrow> handler list" where
  "registered s event = (case eventHandlers s event of None \<Rightarrow> [] | Some hs \<Rightarrow> hs)"

text \<open>
  What each \<^verbatim>\<open>await method()\<close> of the loop answers, each in the state the turn before
  left: \<open>None\<close> when the method returned, the error when it threw.
\<close>

fun outcomes :: "'p env \<Rightarrow> 'p entry list \<Rightarrow> 'p microbit \<Rightarrow> error option list" where
  "outcomes P [] s = []"
| "outcomes P (e # es) s =
     (case fst (start_method e s) of Inl err \<Rightarrow> Some err | Inr _ \<Rightarrow> None)
       # outcomes P es (snd (attempt P e s))"

text \<open>
  The milestones one turn of the loop leaves: for a method that returned, its
  \<^verbatim>\<open>service:started\<close> and the pause; for one that threw, its \<^verbatim>\<open>service:failed\<close>, and the
  one of the loop unless the entry is optional.
\<close>

fun turn_milestones :: "nat \<Rightarrow> string \<Rightarrow> bool \<Rightarrow> error option \<Rightarrow> action list" where
  "turn_milestones delay key opt None =
     [Emit ''service:started'' (ServiceStarted key), Await (SetTimeout delay)]"
| "turn_milestones delay key opt (Some err) =
     Emit ''service:failed'' (ServiceFailed key err)
       # (if opt then [] else [Emit ''service:failed'' (ServiceFailed key err)])"

subsection \<open>States of the manager\<close>

text \<open>\<^verbatim>\<open>this.server?.connected\<close> as a truth value.\<close>

definition server_connected :: "'p env \<Rightarrow> 'p microbit \<Rightarrow> bool" where
  "server_connected P s =
     (case server s of None \<Rightarrow> False | Some sv \<Rightarrow> connected P sv (outside s))"

text \<open>A manager made to forget its link, as it is before its first \<^verbatim>\<open>connect()\<close>: no device, no server.\<close>

definition forget_link :: "'p microbit \<Rightarrow> 'p microbit" where
  "forget_link s = s\<lparr>device := None, server := None\<rparr>"

subsection \<open>Milestones of a method\<close>

text \<open>
  What a method adds to the milestones of the run, as a function of what it returns or
  throws; it leaves the configuration alone. A method is quiet when it adds none.
\<close>

definition adds :: "(error + 'a \<Rightarrow> action list) \<Rightarrow> ('p, 'a) prog \<Rightarrow> bool" where
  "adds f m \<longleftrightarrow>
     (\<forall>s. config (snd (m s)) = config s \<and>
          milestones (trace (snd (m s))) = milestones (trace s) @ f (fst (m s)))"

abbreviation quiet :: "('p, 'a) prog \<Rightarrow> bool" where
  "quiet \<equiv> adds (\<lambda>_. [])"

definition announce :: "string \<Rightarrow> error + unit \<Rightarrow> action list" where
  "announce key r =
     (case r of Inr _ \<Rightarrow> [Emit ''service:started'' (ServiceStarted key)] | Inl _ \<Rightarrow> [])"

definition report :: "string \<Rightarrow> error + unit \<Rightarrow> action list" where
  "report key r =
     (case r of
        Inr _ \<Rightarrow> [Emit ''service:started'' (ServiceStarted key)]
      | Inl err \<Rightarrow> [Emit ''service:failed'' (ServiceFailed key err)])"

section \<open>Decoding notifications\<close>

subsection \<open>Signed reads are two's complement\<close>

lemma uint_byte_bounds: "0 \<le> uint (b :: byte) \<and> uint b < 256"
  using uint_lt2p [of b] by simp

lemma wrap_signed:
  fixes k m :: int
  assumes "0 \<le> k" "k < 2 * m"
  shows "(k + m) mod (2 * m) - m = (if m \<le> k then k - 2 * m else k)"
proof (cases "m \<le> k")
  case True
  have "(k + m) mod (2 * m) = ((k - m) + 2 * m) mod (2 * m)" by (simp add: algebra_simps)
  also have "\<dots> = (k - m) mod (2 * m)" by (simp only: mod_add_self2)
  also have "\<dots> = k - m" using True assms by simp
  finally show ?thesis using True by simp
next
  case False
  then have "(k + m) mod (2 * m) = k + m" using assms by simp
  then show ?thesis using False by simp
qed

lemma sint_byte: "sint (b :: byte) = (if uint b \<ge> 128 then uint b - 256 else uint b)"
proof -
  have "sint b = (uint b + 128) mod (2 * 128) - 128"
    by (simp add: sint_uint signed_take_bit_eq_take_bit_shift take_bit_eq_mod)
  then show ?thesis using uint_byte_bounds [of b] wrap_signed [of "uint b" 128] by simp
qed

lemma uint_word_cat_bytes:
  "uint (word_cat (b1 :: byte) (b0 :: byte) :: 16 word) = uint b0 + 256 * uint b1"
proof -
  have "uint (word_cat b1 b0 :: 16 word) = (uint b0 mod 256 + uint b1 * 256) mod 65536"
    by (simp only: word_cat_eq' uint_word_of_int concat_bit_eq take_bit_eq_mod push_bit_eq_mult)
      simp
  moreover have "uint b0 mod 256 = uint b0"
    using uint_byte_bounds [of b0] by simp
  moreover have "0 \<le> uint b0 + uint b1 * 256" "uint b0 + uint b1 * 256 < 65536"
    using uint_byte_bounds [of b0] uint_byte_bounds [of b1] by simp_all
  ultimately show ?thesis by simp
qed

lemma sint_word16:
  "sint (w :: 16 word) = (if uint w \<ge> 32768 then uint w - 65536 else uint w)"
proof -
  have "sint w = (uint w + 32768) mod (2 * 32768) - 32768"
    by (simp add: sint_uint signed_take_bit_eq_take_bit_shift take_bit_eq_mod)
  then show ?thesis
    using uint_lt2p [of w] uint_ge_0 [of w] wrap_signed [of "uint w" 32768] by simp
qed

lemma getInt8_sint: "off < length v \<Longrightarrow> getInt8 off v = Inr (sint (v ! off))"
  by (simp add: getInt8_def getViewValue_def sint_byte Cons_nth_drop_Suc [symmetric])

lemma getUint8_uint: "off < length v \<Longrightarrow> getUint8 off v = Inr (uint (v ! off))"
  by (simp add: getUint8_def getViewValue_def Cons_nth_drop_Suc [symmetric])

lemma getInt16_sint:
  "off + 1 < length v \<Longrightarrow>
   getInt16 off True v = Inr (sint (word_cat (v ! (off + 1)) (v ! off) :: 16 word))"
  by (simp add: getInt16_def getViewValue_def sint_word16 uint_word_cat_bytes
      Cons_nth_drop_Suc [symmetric] numeral_2_eq_2)

subsection \<open>Temperature\<close>

text \<open>
  Claim C6. For every 1-byte temperature payload the listener reads the byte as a signed
  8-bit integer: the value it emits with \<^verbatim>\<open>temperature:changed\<close> is the two's-complement value
  of the byte, which lies between -128 and 127. The byte 0xE8 is decoded to -24.
\<close>

theorem temperature_decode_signed:
  "characteristicvaluechanged P TemperatureData [b] s =
     (Inr (), emit P ''temperature:changed'' (Temperature (sint b)) s)
   \<and> - 128 \<le> sint b \<and> sint b \<le> 127
   \<and> characteristicvaluechanged P TemperatureData [0xE8] s =
     (Inr (), emit P ''temperature:changed'' (Temperature (- 24)) s)"
proof -
  have decode: "characteristicvaluechanged P TemperatureData [c] s =
     (Inr (), emit P ''temperature:changed'' (Temperature (sint c)) s)" for c
    by (simp add: getInt8_sint bind_def lift_def exec_def)
  have "- 128 \<le> sint b" "sint b \<le> 127"
    using sint_ge [of b] sint_lt [of b] by simp_all
  moreover have "sint (0xE8 :: byte) = - 24" by simp
  ultimately show ?thesis using decode [of b] decode [of "0xE8"] by simp
qed

subsection \<open>Accelerometer and magnetometer\<close>

text \<open>
  Claim C5. For every 6-byte payload the accelerometer listener and the magnetometer
  listener emit three integers: x is the signed 16-bit little-endian reading of bytes 0
  and 1 (byte 1 the high byte), y of bytes 2 and 3, z of bytes 4 and 5, each the
  two's-complement value of that 16-bit word. The bytes 10 00 F0 FF 00 04 give
  x = 16, y = -16, z = 1024.
\<close>

theorem xyz_decode_int16_le:
  "characteristicvaluechanged P AccelerometerData [b0, b1, b2, b3, b4, b5] s =
     (Inr (), emit P ''accelerometer:changed''
        (XYZ (sint (word_cat b1 b0 :: 16 word)) (sint (word_cat b3 b2 :: 16 word))
             (sint (word_cat b5 b4 :: 16 word))) s)
   \<and> characteristicvaluechanged P MagnetometerData [b0, b1, b2, b3, b4, b5] s =
     (Inr (), emit P ''magnetometer:changed''
        (XYZ (sint (word_cat b1 b0 :: 16 word)) (sint (word_cat b3 b2 :: 16 word))
             (sint (word_cat b5 b4 :: 16 word))) s)
   \<and> characteristicvaluechanged P AccelerometerData [0x10, 0x00, 0xF0, 0xFF, 0x00, 0x04] s =
     (Inr (), emit P ''accelerometer:changed'' (XYZ 16 (- 16) 1024) s)"
proof -
  have "characteristicvaluechanged P AccelerometerData [0x10, 0x00, 0xF0, 0xFF, 0x00, 0x04] s =
     (Inr (), emit P ''accelerometer:changed'' (XYZ 16 (- 16) 1024) s)"
    by (simp add: getInt16_def getViewValue_def bind_def lift_def exec_def)
  then show ?thesis
    by (simp add: getInt16_sint bind_def lift_def exec_def)
qed

subsection \<open>Buttons\<close>

text \<open>
  Claim C1, as the code has it. For every 1-byte button payload the listeners of button A
  and of button B emit \<^verbatim>\<open>button:a:changed\<close> and \<^verbatim>\<open>button:b:changed\<close> with the field
  \<^verbatim>\<open>pressed\<close> true exactly when the byte is 1: the byte 0 gives false, the byte 1 gives
  true, and every other byte gives false.
\<close>

theorem button_pressed_iff_one:
  "characteristicvaluechanged P ButtonA [b] s =
     (Inr (), emit P ''button:a:changed'' (Pressed (b = 1)) s)
   \<and> characteristicvaluechanged P ButtonB [b] s =
     (Inr (), emit P ''button:b:changed'' (Pressed (b = 1)) s)"
  by (simp add: getUint8_uint bind_def lift_def exec_def word_uint_eq_iff)

text \<open>
  Against claim C1 as stated: the byte 2, which is not zero, is reported as not pressed.
  On a manager with one callback on \<^verbatim>\<open>button:a:changed\<close>, the notification 02 calls it
  with \<^verbatim>\<open>pressed\<close> false.
\<close>

theorem button_two_not_pressed:
  "trace (snd (characteristicvaluechanged (bench True [] []) ButtonA [2]
                (on ''button:a:changed'' (Handler 0) fresh))) =
     [Emit ''button:a:changed'' (Pressed False),
      Called (Handler 0) ''button:a:changed'' (Pressed False)]"
  by (simp add: fresh_def constructor_def initializeEventHandlers_def on_def getUint8_def
      getViewValue_def bind_def lift_def exec_def emit_def invoke_def bench_def)

section \<open>Event fan-out\<close>

subsection \<open>What one emission does\<close>

lemmas prog_defs =
  return_def throw_def bind_def seq_def try_catch_def exec_def lift_def await_def sleep_def
  console_log_def

lemma invoke_eq:
  "invoke P ev d h s =
     s\<lparr>outside := snd (run_handler P h d (outside s)),
       trace := trace s @ turn ev d h (fst (run_handler P h d (outside s)))\<rparr>"
  by (simp add: invoke_def split: prod.splits sum.splits)

lemma forEach_eq:
  "forEach P ev d hs s =
     s\<lparr>outside := handlers_outside P d hs (outside s),
       trace := trace s @ concat (map2 (turn ev d) hs (handler_results P d hs (outside s)))\<rparr>"
  by (induction hs arbitrary: s) (simp_all add: invoke_eq)

lemma emit_eq:
  "emit P ev d s =
     s\<lparr>outside := handlers_outside P d (registered s ev) (outside s),
       trace := trace s @ Emit ev d
         # concat (map2 (turn ev d) (registered s ev)
                     (handler_results P d (registered s ev) (outside s)))\<rparr>"
  by (simp add: emit_def forEach_eq registered_def Let_def)

lemma registered_update [simp]:
  "registered (s\<lparr>device := a\<rparr>) ev = registered s ev"
  "registered (s\<lparr>server := b\<rparr>) ev = registered s ev"
  "registered (s\<lparr>services := m\<rparr>) ev = registered s ev"
  "registered (s\<lparr>characteristics := c\<rparr>) ev = registered s ev"
  "registered (s\<lparr>outside := p\<rparr>) ev = registered s ev"
  "registered (s\<lparr>trace := t\<rparr>) ev = registered s ev"
  by (simp_all add: registered_def)

lemma emit_fields [simp]:
  "config (emit P ev d s) = config s"
  "device (emit P ev d s) = device s"
  "server (emit P ev d s) = server s"
  "services (emit P ev d s) = services s"
  "characteristics (emit P ev d s) = characteristics s"
  "eventHandlers (emit P ev d s) = eventHandlers s"
  by (simp_all add: emit_eq)

lemma length_handler_results [simp]: "length (handler_results P d hs p) = length hs"
  by (induction hs arbitrary: p) simp_all

subsection \<open>Reading the trace of an emission\<close>

lemma milestones_Nil [simp]: "milestones [] = []"
  by (simp add: milestones_def)

lemma milestones_Cons [simp]:
  "milestones (a # t) = (if milestone a then a # milestones t else milestones t)"
  by (simp add: milestones_def)

lemma milestones_append [simp]: "milestones (xs @ ys) = milestones xs @ milestones ys"
  by (simp add: milestones_def)

lemma written_append [simp]: "written (xs @ ys) = written xs @ written ys"
  by (induction xs rule: written.induct) simp_all

lemma calls_append [simp]: "calls (xs @ ys) = calls xs @ calls ys"
  by (induction xs rule: calls.induct) simp_all

lemma emitted_append [simp]: "emitted ev (xs @ ys) = emitted ev xs @ emitted ev ys"
  by (induction ev xs rule: emitted.induct) simp_all

lemma emitted_milestones [simp]: "emitted ev (milestones t) = emitted ev t"
  by (induction ev t rule: emitted.induct) simp_all

lemma turn_silent [simp]:
  "milestones (turn ev d h r) = []"
  "written (turn ev d h r) = []"
  "emitted ev' (turn ev d h r) = []"
  "calls (turn ev d h r) = [h]"
  by (cases r; simp)+

lemma turns_silent [simp]:
  "milestones (concat (map2 (turn ev d) hs rs)) = []"
  "written (concat (map2 (turn ev d) hs rs)) = []"
  "emitted ev' (concat (map2 (turn ev d) hs rs)) = []"
  by (induction hs arbitrary: rs; case_tac rs; simp)+

lemma turns_calls:
  "length rs = length hs \<Longrightarrow> calls (concat (map2 (turn ev d) hs rs)) = hs"
  by (induction hs arbitrary: rs; case_tac rs; simp)

lemma emit_milestones [simp]:
  "milestones (trace (emit P ev d s)) = milestones (trace s) @ [Emit ev d]"
  by (simp add: emit_eq)

lemma emit_written [simp]: "written (trace (emit P ev d s)) = written (trace s)"
  by (simp add: emit_eq)

lemma emit_emitted [simp]:
  "emitted ev' (trace (emit P ev d s)) =
     emitted ev' (trace s) @ (if ev = ev' then [d] else [])"
  by (simp add: emit_eq)

subsection \<open>Registration\<close>

lemma on_registered:
  "registered (on ev h s) ev' = (if ev' = ev then registered s ev @ [h] else registered s ev')"
  by (simp add: on_def registered_def Let_def split: option.splits)

lemma register_all:
  "registered (foldl (\<lambda>s h. on ev h s) s hs) ev = registered s ev @ hs"
  by (induction hs arbitrary: s) (simp_all add: on_registered)

text \<open>
  Claim C9. Callbacks registered with \<^verbatim>\<open>on\<close> are appended to the list of their event, so
  the list is in registration order. Emitting an event takes one turn per callback of
  the list, in that order: the callback is called, and when it throws the error is
  written to the console and the next turn follows. Every callback of the list gets its
  turn whatever the others answer, and the table of callbacks is the same after the
  emission as before.
\<close>

theorem emit_calls_every_handler_in_order:
  "registered (foldl (\<lambda>s h. on event h s) s hs) event = registered s event @ hs
   \<and> trace (emit P event data s) =
       trace s @ Emit event data
         # concat (map2 (turn event data) (registered s event)
                     (handler_results P data (registered s event) (outside s)))
   \<and> length (handler_results P data (registered s event) (outside s)) =
       length (registered s event)
   \<and> calls (trace (emit P event data s)) = calls (trace s) @ registered s event
   \<and> eventHandlers (emit P event data s) = eventHandlers s"
  by (simp add: register_all emit_eq turns_calls)

text \<open>
  Three callbacks registered in the order 1, 2, 3, the second of which throws: all three
  are called in that order, and the error of the second is on the console.
\<close>

lemma emit_with_throwing_handler:
  "trace (emit (bench True [] [Handler 2]) ''error'' (Pressed True)
            (foldl (\<lambda>s h. on ''error'' h s) fresh [Handler 1, Handler 2, Handler 3])) =
     [Emit ''error'' (Pressed True),
      Called (Handler 1) ''error'' (Pressed True),
      Called (Handler 2) ''error'' (Pressed True),
      ConsoleError ''error'' (Thrown ''handler''),
      Called (Handler 3) ''error'' (Pressed True)]"
  by (simp add: fresh_def constructor_def initializeEventHandlers_def on_def emit_def
      invoke_def bench_def)

section \<open>The start sequence\<close>

subsection \<open>What each construct adds to the milestones\<close>

lemma addsD:
  assumes "adds f m" and "m s = (r, s')"
  shows "config s' = config s" and "milestones (trace s') = milestones (trace s) @ f r"
  using assms by (auto simp: adds_def dest: spec [of _ s])

lemma quiet_return [simp]: "quiet (return x)"
  by (simp add: adds_def return_def)

lemma adds_throw [simp]: "f (Inl e) = [] \<Longrightarrow> adds f (throw e)"
  by (simp add: adds_def throw_def)

lemma adds_if: "adds f a \<Longrightarrow> adds f b \<Longrightarrow> adds f (if c then a else b)"
  by simp

lemma adds_bind:
  assumes m: "quiet m" and k: "\<And>x. adds g (k x)" and g: "\<And>e. g (Inl e) = []"
  shows "adds g (bind m k)"
  unfolding adds_def
proof (intro allI)
  fix s
  obtain r s1 where ms: "m s = (r, s1)" by (cases "m s")
  note m1 = addsD [OF m ms]
  show "config (snd (bind m k s)) = config s \<and>
        milestones (trace (snd (bind m k s))) = milestones (trace s) @ g (fst (bind m k s))"
  proof (cases r)
    case (Inl e)
    then show ?thesis using ms m1 g by (simp add: bind_def)
  next
    case (Inr x)
    obtain r2 s2 where ks: "k x s1 = (r2, s2)" by (cases "k x s1")
    from addsD [OF k ks] Inr ms ks m1 show ?thesis by (simp add: bind_def)
  qed
qed

lemma adds_seq:
  "quiet m \<Longrightarrow> adds g n \<Longrightarrow> (\<And>e. g (Inl e) = []) \<Longrightarrow> adds g (seq m n)"
  unfolding seq_def by (rule adds_bind)

lemma quiet_try_catch:
  assumes m: "quiet m" and h: "\<And>e. quiet (h e)"
  shows "quiet (try_catch m h)"
  unfolding adds_def
proof (intro allI)
  fix s
  obtain r s1 where ms: "m s = (r, s1)" by (cases "m s")
  note m1 = addsD [OF m ms]
  show "config (snd (try_catch m h s)) = config s \<and>
        milestones (trace (snd (try_catch m h s))) = milestones (trace s) @ []"
  proof (cases r)
    case (Inl e)
    obtain r2 s2 where hs: "h e s1 = (r2, s2)" by (cases "h e s1")
    from addsD [OF h hs] Inl ms hs m1 show ?thesis by (simp add: try_catch_def)
  next
    case (Inr x)
    then show ?thesis using ms m1 by (simp add: try_catch_def)
  qed
qed

lemma quiet_await: "\<not> milestone (Await req) \<Longrightarrow> quiet (await req f)"
  by (simp add: adds_def await_def split: prod.splits)

lemma quiet_platform [simp]:
  "quiet (primaryService P sv u)"
  "quiet (characteristic_of P svc u)"
  "quiet (notifications P c)"
  "quiet (write_value P c bytes)"
  by (simp_all add: primaryService_def characteristic_of_def notifications_def write_value_def
      quiet_await)

lemma quiet_updates [simp]:
  "quiet (addEventListener c l)"
  "quiet (services_set key svc)"
  "quiet (characteristics_set key c)"
  "quiet (console_log msg)"
  by (simp_all add: adds_def addEventListener_def services_set_def characteristics_set_def
      console_log_def exec_def)

lemma quiet_require_connected [simp]: "quiet (require_connected P)"
  by (simp add: adds_def require_connected_def return_def throw_def split: option.splits)

lemma quiet_probe_data [simp]: "quiet (probe_data P svc)"
  unfolding probe_data_def
  by (intro quiet_try_catch adds_bind adds_seq quiet_platform quiet_updates quiet_return) simp_all

lemma quiet_probe_bearing [simp]: "quiet (probe_bearing P svc b)"
  unfolding probe_bearing_def
  by (intro quiet_try_catch adds_bind adds_seq quiet_platform quiet_updates quiet_return) simp_all

lemma announce_Inl [simp]: "announce key (Inl e) = []"
  by (simp add: announce_def)

lemma adds_started [simp]:
  "adds (announce key) (exec (emit P ''service:started'' (ServiceStarted key)))"
  by (simp add: adds_def exec_def announce_def)

text \<open>
  A \<^verbatim>\<open>try\<close> block that can only add its \<^verbatim>\<open>service:started\<close>, closed by the common \<^verbatim>\<open>catch\<close>
  block, adds exactly one milestone: \<^verbatim>\<open>service:started\<close> when it returns,
  \<^verbatim>\<open>service:failed\<close> with the error when it throws.
\<close>

lemma adds_failed:
  assumes m: "adds (announce key) m"
  shows "adds (report key) (try_catch m (failed P key))"
  unfolding adds_def
proof (intro allI)
  fix s
  obtain r s1 where ms: "m s = (r, s1)" by (cases "m s")
  note m1 = addsD [OF m ms]
  show "config (snd (try_catch m (failed P key) s)) = config s \<and>
        milestones (trace (snd (try_catch m (failed P key) s))) =
          milestones (trace s) @ report key (fst (try_catch m (failed P key) s))"
    using ms m1
    by (cases r)
      (simp_all add: try_catch_def failed_def seq_def bind_def exec_def throw_def
        announce_def report_def)
qed

lemmas start_rules =
  adds_if adds_throw adds_bind adds_seq quiet_platform quiet_updates quiet_require_connected
  adds_started quiet_probe_data quiet_probe_bearing announce_Inl

lemma startUART_adds: "adds (report ''uart'') (startUART P)"
  unfolding startUART_def by (intro adds_failed start_rules)

lemma startTemperature_adds: "adds (report ''temperature'') (startTemperature P)"
  unfolding startTemperature_def by (intro adds_failed start_rules)

lemma startAccelerometer_adds: "adds (report ''accelerometer'') (startAccelerometer P)"
  unfolding startAccelerometer_def by (intro adds_failed start_rules)

lemma startButtons_adds: "adds (report ''buttons'') (startButtons P)"
  unfolding startButtons_def by (intro adds_failed start_rules)

lemma startMagnetometer_adds: "adds (report ''magnetometer'') (startMagnetometer P)"
  unfolding startMagnetometer_def by (intro adds_failed start_rules)

lemma table_adds:
  "e \<in> set (service_table P) \<Longrightarrow> adds (report (name e)) (start_method e)"
  by (auto simp: service_table_def startUART_adds startTemperature_adds
      startAccelerometer_adds startButtons_adds startMagnetometer_adds)

subsection \<open>The loop\<close>

text \<open>
  One turn of the loop, whatever the entry: it returns normally; after a method that
  returned it pauses, after one that threw it emits \<^verbatim>\<open>service:failed\<close> unless the entry is
  optional, and then it does nothing at all.
\<close>

lemma attempt_turn:
  "attempt P e s =
     (Inr (),
      case fst (start_method e s) of
        Inr _ \<Rightarrow>
          snd (sleep P (serviceDelay (config (snd (start_method e s)))) (snd (start_method e s)))
      | Inl err \<Rightarrow>
          if optional e then snd (start_method e s)
          else emit P ''service:failed'' (ServiceFailed (name e) err) (snd (start_method e s)))"
proof -
  obtain r s1 where ms: "start_method e s = (r, s1)" by (cases "start_method e s")
  then show ?thesis
    by (cases r)
      (simp_all add: attempt_def try_catch_def seq_def bind_def sleep_def await_def exec_def
        return_def)
qed

lemma attempt_result: "fst (attempt P e s) = Inr ()"
  by (simp add: attempt_def try_catch_def seq_def bind_def sleep_def await_def exec_def
      return_def split: prod.splits sum.splits)

lemma attempt_emitted:
  "emitted ev (trace (snd (attempt P e s))) =
     emitted ev (trace (snd (start_method e s)))
       @ (case fst (start_method e s) of
            Inr _ \<Rightarrow> []
          | Inl err \<Rightarrow>
              if optional e \<or> ev \<noteq> ''service:failed'' then []
              else [ServiceFailed (name e) err])"
proof -
  obtain r s1 where ms: "start_method e s = (r, s1)" by (cases "start_method e s")
  then show ?thesis
    by (cases r)
      (auto simp: attempt_def try_catch_def seq_def bind_def sleep_def await_def exec_def
        return_def)
qed

lemma attempt_adds:
  assumes m: "adds (report (name e)) (start_method e)"
  shows "config (snd (attempt P e s)) = config s"
    and "milestones (trace (snd (attempt P e s))) =
           milestones (trace s) @
           turn_milestones (serviceDelay (config s)) (name e) (optional e)
             (case fst (start_method e s) of Inl err \<Rightarrow> Some err | Inr _ \<Rightarrow> None)"
proof -
  obtain r s1 where ms: "start_method e s = (r, s1)" by (cases "start_method e s")
  note m1 = addsD [OF m ms]
  show "config (snd (attempt P e s)) = config s"
    using ms m1
    by (cases r)
      (simp_all add: attempt_def try_catch_def seq_def bind_def sleep_def await_def exec_def
        return_def)
  show "milestones (trace (snd (attempt P e s))) =
           milestones (trace s) @
           turn_milestones (serviceDelay (config s)) (name e) (optional e)
             (case fst (start_method e s) of Inl err \<Rightarrow> Some err | Inr _ \<Rightarrow> None)"
    using ms m1
    by (cases r)
      (simp_all add: attempt_def try_catch_def seq_def bind_def sleep_def await_def exec_def
        return_def report_def)
qed

lemma for_of_result: "fst (for_of P es s) = Inr ()"
proof (induction es arbitrary: s)
  case Nil
  show ?case by (simp add: return_def)
next
  case (Cons e es)
  obtain r s1 where a: "attempt P e s = (r, s1)" by (cases "attempt P e s")
  with attempt_result [of P e s] have "r = Inr ()" by simp
  with a Cons show ?case by (simp add: seq_def bind_def)
qed

lemma for_of_adds:
  assumes "\<And>e. e \<in> set es \<Longrightarrow> adds (report (name e)) (start_method e)"
  shows "config (snd (for_of P es s)) = config s \<and>
         milestones (trace (snd (for_of P es s))) =
           milestones (trace s) @
           concat (map2 (\<lambda>e. turn_milestones (serviceDelay (config s)) (name e) (optional e))
                     es (outcomes P es s))"
  using assms
proof (induction es arbitrary: s)
  case Nil
  show ?case by (simp add: return_def)
next
  case (Cons e es)
  obtain r s1 where a: "attempt P e s = (r, s1)" by (cases "attempt P e s")
  with attempt_result [of P e s] have r: "r = Inr ()" by simp
  have e: "adds (report (name e)) (start_method e)" using Cons.prems by simp
  from attempt_adds [OF e, of P s] a
  have c1: "config s1 = config s"
    and t1: "milestones (trace s1) =
           milestones (trace s) @
           turn_milestones (serviceDelay (config s)) (name e) (optional e)
             (case fst (start_method e s) of Inl err \<Rightarrow> Some err | Inr _ \<Rightarrow> None)"
    by simp_all
  have "config (snd (for_of P es s1)) = config s1 \<and>
         milestones (trace (snd (for_of P es s1))) =
           milestones (trace s1) @
           concat (map2 (\<lambda>e. turn_milestones (serviceDelay (config s1)) (name e) (optional e))
                     es (outcomes P es s1))"
    using Cons.IH [of s1] Cons.prems by simp
  with a r c1 t1 show ?case by (simp add: seq_def bind_def)
qed

lemma startAllServices_result: "fst (startAllServices P s) = Inr ()"
  by (simp add: startAllServices_def seq_def bind_def sleep_def await_def for_of_result)

text \<open>
  The milestones of the whole sequence: the pause of 500 ms, then for each entry of the
  table, in the order of the table, the milestones of its turn.
\<close>

lemma startAllServices_milestones:
  "milestones (trace (snd (startAllServices P s))) =
     milestones (trace s) @ Await (SetTimeout 500)
       # concat (map2 (\<lambda>e. turn_milestones (serviceDelay (config s)) (name e) (optional e))
           (service_table P) (outcomes P (service_table P) (snd (sleep P 500 s))))"
proof -
  have "\<And>e. e \<in> set (service_table P) \<Longrightarrow> adds (report (name e)) (start_method e)"
    by (rule table_adds)
  from for_of_adds [where es = "service_table P" and P = P and s = "snd (sleep P 500 s)", OF this]
  show ?thesis
    by (simp add: startAllServices_def seq_def bind_def sleep_def await_def)
qed

lemma length_outcomes [simp]: "length (outcomes P es s) = length es"
  by (induction es arbitrary: s) simp_all

subsection \<open>Failures in the sequence\<close>

lemma emitted_turn_milestones:
  "emitted ev (turn_milestones delay key opt out) =
     (case out of
        None \<Rightarrow> if ev = ''service:started'' then [ServiceStarted key] else []
      | Some err \<Rightarrow>
          if ev = ''service:failed'' then replicate (if opt then 1 else 2) (ServiceFailed key err)
          else [])"
  by (cases out) (simp_all add: numeral_2_eq_2)

lemma emitted_error_turns:
  "emitted ''error''
     (concat (map2 (\<lambda>e. turn_milestones delay (name e) (optional e)) es outs)) = []"
  by (induction es arbitrary: outs; case_tac outs)
    (simp_all add: emitted_turn_milestones split: option.splits)

lemma emitted_failed_turns:
  "emitted ''service:failed''
     (concat (map2 (\<lambda>e. turn_milestones delay (name e) (optional e)) es outs)) =
   concat (map2 (\<lambda>e out. case out of None \<Rightarrow> []
                 | Some err \<Rightarrow> replicate (if optional e then 1 else 2) (ServiceFailed (name e) err))
             es outs)"
  by (induction es arbitrary: outs; case_tac outs)
    (simp_all add: emitted_turn_milestones split: option.splits)

lemma startAllServices_emitted:
  "emitted ev (trace (snd (startAllServices P s))) =
     emitted ev (trace s)
       @ emitted ev (concat (map2 (\<lambda>e. turn_milestones (serviceDelay (config s)) (name e) (optional e))
           (service_table P) (outcomes P (service_table P) (snd (sleep P 500 s)))))"
proof -
  have "emitted ev (trace (snd (startAllServices P s))) =
        emitted ev (milestones (trace (snd (startAllServices P s))))"
    by simp
  also have "\<dots> = emitted ev (trace s)
       @ emitted ev (concat (map2 (\<lambda>e. turn_milestones (serviceDelay (config s)) (name e) (optional e))
           (service_table P) (outcomes P (service_table P) (snd (sleep P 500 s)))))"
    by (simp only: startAllServices_milestones) simp
  finally show ?thesis .
qed

lemma own_failure:
  assumes "adds (report key) m"
  shows "emitted ''service:failed'' (trace (snd (m s))) =
           emitted ''service:failed'' (trace s)
             @ (case fst (m s) of Inr _ \<Rightarrow> [] | Inl err \<Rightarrow> [ServiceFailed key err])"
proof -
  obtain r s1 where ms: "m s = (r, s1)" by (cases "m s")
  have "emitted ''service:failed'' (trace s1) = emitted ''service:failed'' (milestones (trace s1))"
    by simp
  also have "\<dots> = emitted ''service:failed'' (milestones (trace s) @ report key r)"
    using addsD(2) [OF assms ms] by simp
  finally show ?thesis using ms by (cases r) (simp_all add: report_def)
qed

text \<open>What to unfold to run the library on the bench.\<close>

lemmas uuid_defs =
  UART_SERVICE_def UART_TX_def UART_RX_def TEMPERATURE_SERVICE_def TEMPERATURE_DATA_def
  TEMPERATURE_PERIOD_def ACCELEROMETER_SERVICE_def ACCELEROMETER_DATA_def
  ACCELEROMETER_PERIOD_def BUTTON_SERVICE_def BUTTON_A_def BUTTON_B_def
  MAGNETOMETER_SERVICE_def MAGNETOMETER_DATA_def MAGNETOMETER_PERIOD_def
  MAGNETOMETER_BEARING_def LED_SERVICE_def LED_TEXT_def MICROBIT_UUIDS_values_def

lemmas run_defs =
  startUART_def startTemperature_def startAccelerometer_def startButtons_def
  startMagnetometer_def probe_data_def probe_bearing_def service_table_def attempt_def
  startAllServices_def prog_defs require_connected_def primaryService_def characteristic_of_def
  notifications_def write_value_def addEventListener_def services_set_def
  characteristics_set_def failed_def emit_def invoke_def bench_def linked_up_def fresh_def
  constructor_def initializeEventHandlers_def uuid_defs

text \<open>
  Claim C2, as the code has it. The start sequence never rejects: whatever the platform
  answers, \<^verbatim>\<open>_startAllServices\<close> returns normally, and so does each turn of its loop, for
  the magnetometer and for every other service alike. No \<^verbatim>\<open>error\<close> event is emitted. What
  the loop does with the failure of a service depends on the entry: for an entry that is
  not optional it emits \<^verbatim>\<open>service:failed\<close> once more, after the one of the start method;
  for the optional entry it does nothing, neither an event nor a line on the console. The
  magnetometer is the only optional entry.
\<close>

theorem start_sequence_never_rejects:
  "fst (startAllServices P s) = Inr ()
   \<and> attempt P e s =
       (Inr (),
        case fst (start_method e s) of
          Inr _ \<Rightarrow>
            snd (sleep P (serviceDelay (config (snd (start_method e s))))
                   (snd (start_method e s)))
        | Inl err \<Rightarrow>
            if optional e then snd (start_method e s)
            else emit P ''service:failed'' (ServiceFailed (name e) err)
                   (snd (start_method e s)))
   \<and> emitted ''error'' (trace (snd (startAllServices P s))) = emitted ''error'' (trace s)
   \<and> emitted ''service:failed'' (trace (snd (attempt P e s))) =
       emitted ''service:failed'' (trace (snd (start_method e s)))
         @ (case fst (start_method e s) of
              Inr _ \<Rightarrow> []
            | Inl err \<Rightarrow> if optional e then [] else [ServiceFailed (name e) err])
   \<and> map (\<lambda>e. (name e, optional e)) (service_table P) =
       [(''uart'', False), (''temperature'', False), (''accelerometer'', False),
        (''buttons'', False), (''magnetometer'', True)]"
proof -
  have "emitted ''error'' (trace (snd (startAllServices P s))) = emitted ''error'' (trace s)"
    by (simp add: startAllServices_emitted emitted_error_turns)
  moreover have "emitted ''service:failed'' (trace (snd (attempt P e s))) =
       emitted ''service:failed'' (trace (snd (start_method e s)))
         @ (case fst (start_method e s) of
              Inr _ \<Rightarrow> []
            | Inl err \<Rightarrow> if optional e then [] else [ServiceFailed (name e) err])"
    using attempt_emitted [of "''service:failed''" P e s] by (simp split: sum.splits)
  moreover have "map (\<lambda>e. (name e, optional e)) (service_table P) =
       [(''uart'', False), (''temperature'', False), (''accelerometer'', False),
        (''buttons'', False), (''magnetometer'', True)]"
    by (simp add: service_table_def)
  ultimately show ?thesis
    using attempt_turn [of P e s]
    by (simp only: startAllServices_result simp_thms)
qed

text \<open>
  Against claim C2 as stated: with the UART service missing on the device, \<^verbatim>\<open>startUART\<close>
  throws where the loop calls it, and the sequence returns normally all the same.
\<close>

theorem uart_failure_not_surfaced:
  "fst (startUART (bench True [UART_SERVICE] [])
          (snd (sleep (bench True [UART_SERVICE] []) 500 linked_up))) =
     Inl (DOMException ''NotFoundError'')
   \<and> fst (startAllServices (bench True [UART_SERVICE] []) linked_up) = Inr ()"
proof -
  have "fst (startUART (bench True [UART_SERVICE] [])
          (snd (sleep (bench True [UART_SERVICE] []) 500 linked_up))) =
     Inl (DOMException ''NotFoundError'')"
    by (simp add: run_defs)
  then show ?thesis by (simp add: startAllServices_result)
qed

text \<open>
  Claim C7, on a device whose UART service cannot be opened, with the default delay. The
  services are attempted in the order of the table, and the pause of 300 ms follows each
  attempt that succeeded; but between the failed attempt on the UART service and the
  attempt on the temperature service there is no pause: the second \<^verbatim>\<open>service:failed\<close> is
  followed at once by the start of the temperature service.
\<close>

theorem no_pause_after_failed_attempt:
  "milestones (trace (snd (startAllServices (bench True [UART_SERVICE] []) linked_up))) =
     [Await (SetTimeout 500),
      Emit ''service:failed'' (ServiceFailed ''uart'' (DOMException ''NotFoundError'')),
      Emit ''service:failed'' (ServiceFailed ''uart'' (DOMException ''NotFoundError'')),
      Emit ''service:started'' (ServiceStarted ''temperature''),
      Await (SetTimeout 300),
      Emit ''service:started'' (ServiceStarted ''accelerometer''),
      Await (SetTimeout 300),
      Emit ''service:started'' (ServiceStarted ''buttons''),
      Await (SetTimeout 300),
      Emit ''service:started'' (ServiceStarted ''magnetometer''),
      Await (SetTimeout 300)]"
  by (simp add: run_defs)

text \<open>
  Claim C10. Each start method, when it throws, has emitted \<^verbatim>\<open>service:failed\<close> exactly
  once, with its own name and the error, and none when it returns. The turn of the loop
  for that method leaves \<^verbatim>\<open>service:failed\<close> emitted twice when the entry is not optional,
  the second time by the \<^verbatim>\<open>catch\<close> of the loop, and once when it is optional. In the table
  only the magnetometer is optional. So over the whole sequence \<^verbatim>\<open>service:failed\<close> is
  emitted twice for each of uart, temperature, accelerometer and buttons that failed,
  once for the magnetometer when it failed, and never for a service that started.
\<close>

theorem service_failed_twice_unless_optional:
  "emitted ''service:failed'' (trace (snd (startAllServices P s))) =
     emitted ''service:failed'' (trace s)
       @ concat (map2 (\<lambda>e out. case out of None \<Rightarrow> []
                      | Some err \<Rightarrow>
                          replicate (if optional e then 1 else 2) (ServiceFailed (name e) err))
           (service_table P) (outcomes P (service_table P) (snd (sleep P 500 s))))
   \<and> map optional (service_table P) = [False, False, False, False, True]
   \<and> (\<forall>e \<in> set (service_table P).
        emitted ''service:failed'' (trace (snd (start_method e s))) =
          emitted ''service:failed'' (trace s)
            @ (case fst (start_method e s) of
                 Inr _ \<Rightarrow> [] | Inl err \<Rightarrow> [ServiceFailed (name e) err])
        \<and> emitted ''service:failed'' (trace (snd (attempt P e s))) =
          emitted ''service:failed'' (trace s)
            @ (case fst (start_method e s) of
                 Inr _ \<Rightarrow> []
               | Inl err \<Rightarrow>
                   replicate (if optional e then 1 else 2) (ServiceFailed (name e) err)))"
proof (intro conjI ballI)
  show "emitted ''service:failed'' (trace (snd (startAllServices P s))) =
     emitted ''service:failed'' (trace s)
       @ concat (map2 (\<lambda>e out. case out of None \<Rightarrow> []
                      | Some err \<Rightarrow>
                          replicate (if optional e then 1 else 2) (ServiceFailed (name e) err))
           (service_table P) (outcomes P (service_table P) (snd (sleep P 500 s))))"
    by (simp only: startAllServices_emitted emitted_failed_turns)
  show "map optional (service_table P) = [False, False, False, False, True]"
    by (simp add: service_table_def)
next
  fix e assume e: "e \<in> set (service_table P)"
  note own = own_failure [OF table_adds [OF e], of s]
  show "emitted ''service:failed'' (trace (snd (start_method e s))) =
          emitted ''service:failed'' (trace s)
            @ (case fst (start_method e s) of
                 Inr _ \<Rightarrow> [] | Inl err \<Rightarrow> [ServiceFailed (name e) err])"
    by (rule own)
  show "emitted ''service:failed'' (trace (snd (attempt P e s))) =
          emitted ''service:failed'' (trace s)
            @ (case fst (start_method e s) of
                 Inr _ \<Rightarrow> []
               | Inl err \<Rightarrow>
                   replicate (if optional e then 1 else 2) (ServiceFailed (name e) err))"
    using own attempt_emitted [of "''service:failed''" P e s]
    by (simp add: numeral_2_eq_2 split: sum.splits)
qed

text \<open>
  Claim C10 on the bench: on a device that lacks the UART service and the magnetometer
  service, the sequence emits \<^verbatim>\<open>service:failed\<close> twice for uart and once for
  magnetometer; \<^verbatim>\<open>startUART\<close>, an entry of the table, emits it once by itself.
\<close>

theorem service_failed_counts_on_bench:
  "emitted ''service:failed''
     (trace (snd (startAllServices (bench True [UART_SERVICE, MAGNETOMETER_SERVICE] [])
                    linked_up))) =
     [ServiceFailed ''uart'' (DOMException ''NotFoundError''),
      ServiceFailed ''uart'' (DOMException ''NotFoundError''),
      ServiceFailed ''magnetometer'' (DOMException ''NotFoundError'')]
   \<and> Entry ''uart'' (startUART (bench True [UART_SERVICE, MAGNETOMETER_SERVICE] [])) False
       \<in> set (service_table (bench True [UART_SERVICE, MAGNETOMETER_SERVICE] []))
   \<and> emitted ''service:failed''
       (trace (snd (startUART (bench True [UART_SERVICE, MAGNETOMETER_SERVICE] []) linked_up))) =
     [ServiceFailed ''uart'' (DOMException ''NotFoundError'')]"
proof -
  let ?B = "bench True [UART_SERVICE, MAGNETOMETER_SERVICE] []"
  let ?e = "Entry ''uart'' (startUART ?B) False"
  note main = service_failed_twice_unless_optional [of ?B linked_up]
  have outs: "outcomes ?B (service_table ?B) (snd (sleep ?B 500 linked_up)) =
     [Some (DOMException ''NotFoundError''), None, None, None,
      Some (DOMException ''NotFoundError'')]"
    by (simp add: run_defs)
  have mem: "?e \<in> set (service_table ?B)"
    by (simp add: service_table_def)
  have start: "trace linked_up = []"
    by (simp add: linked_up_def fresh_def constructor_def initializeEventHandlers_def)
  have fails: "fst (startUART ?B linked_up) = Inl (DOMException ''NotFoundError'')"
    by (simp add: run_defs)
  from main [THEN conjunct1] outs start
  have "emitted ''service:failed'' (trace (snd (startAllServices ?B linked_up))) =
     [ServiceFailed ''uart'' (DOMException ''NotFoundError''),
      ServiceFailed ''uart'' (DOMException ''NotFoundError''),
      ServiceFailed ''magnetometer'' (DOMException ''NotFoundError'')]"
    by (simp add: service_table_def numeral_2_eq_2)
  moreover from main [THEN conjunct2, THEN conjunct2, THEN bspec, OF mem, THEN conjunct1] fails start
  have "emitted ''service:failed'' (trace (snd (startUART ?B linked_up))) =
     [ServiceFailed ''uart'' (DOMException ''NotFoundError'')]"
    by simp
  ultimately show ?thesis using mem by simp
qed

section \<open>Outgoing text\<close>

subsection \<open>The line terminator in UTF-8\<close>

lemma newline_unit:
  "\<not> is_high_surrogate (0x0A :: code_unit)" "\<not> is_low_surrogate (0x0A :: code_unit)"
  "single_unit (0x0A :: code_unit) = 10"
  by (simp_all add: is_high_surrogate_def is_low_surrogate_def single_unit_def)

lemma scalar_values_newline:
  "scalar_values (us @ [0x0A]) = scalar_values us @ [10]"
  by (induction us rule: scalar_values.induct) (simp_all add: newline_unit)

lemma js_newline: "js [CHR 0x0A] = [0x0A]"
  by (simp add: js_def)

lemma encode_newline:
  "TextEncoder_encode (str @ js [CHR 0x0A]) = TextEncoder_encode str @ [0x0A]"
  by (simp add: TextEncoder_encode_def js_newline scalar_values_newline utf8_bytes_def)

lemma encode_hi: "TextEncoder_encode (js ''hi'') = [0x68, 0x69]"
  by (simp add: TextEncoder_encode_def js_def utf8_bytes_def single_unit_def
      is_high_surrogate_def is_low_surrogate_def)

lemma encode_A: "TextEncoder_encode (js ''A'') = [0x41]"
  by (simp add: TextEncoder_encode_def js_def utf8_bytes_def single_unit_def
      is_high_surrogate_def is_low_surrogate_def)

subsection \<open>What the two methods write\<close>

lemma sendUART_written:
  "written (trace (snd (sendUART P str s))) =
     written (trace s)
       @ (if characteristics s ''uart:rx'' = None then [] else [TextEncoder_encode str @ [0x0A]])"
  by (simp add: sendUART_def write_value_def await_def throw_def encode_newline
      split: option.splits prod.splits)

lemmas led_defs =
  sendTextToLED_def led_service_def require_connected_def primaryService_def
  characteristic_of_def write_value_def services_set_def prog_defs

lemma sendTextToLED_written:
  "written (trace (snd (sendTextToLED P str s))) = written (trace s)
   \<or> written (trace (snd (sendTextToLED P str s))) =
       written (trace s) @ [TextEncoder_encode str]"
  by (auto simp: led_defs split: option.splits prod.splits sum.splits)

lemma sendTextToLED_returns:
  "fst (sendTextToLED P str s) = Inr () \<Longrightarrow>
   written (trace (snd (sendTextToLED P str s))) = written (trace s) @ [TextEncoder_encode str]"
  by (auto simp: led_defs split: option.splits prod.splits sum.splits if_splits)

lemma fresh_fields:
  "server fresh = None" "device fresh = None" "services fresh = Map.empty"
  "characteristics fresh = Map.empty" "trace fresh = []"
  by (simp_all add: fresh_def constructor_def initializeEventHandlers_def)

lemma linked_up_fields:
  "server linked_up = Some (GATTServer 1)" "services linked_up = Map.empty"
  "characteristics linked_up = Map.empty" "trace linked_up = []" "outside linked_up = ()"
  by (simp_all add: linked_up_def fresh_def constructor_def initializeEventHandlers_def)

lemma uart_up_fields:
  "characteristics uart_up ''uart:rx'' = Some (GATTCharacteristic 2)"
  "written (trace uart_up) = []"
  by (simp_all add: uart_up_def run_defs)

text \<open>
  Claim C3. Appending the line terminator to a string and encoding the result gives the
  UTF-8 encoding of the string followed by the single byte 0x0A. \<^verbatim>\<open>sendUART\<close>, when it
  writes, writes exactly these bytes, in one write; \<^verbatim>\<open>sendTextToLED\<close> writes at most once,
  exactly the UTF-8 encoding of the string with nothing appended, and has written it
  when it returns. So "hi" goes to the UART as 68 69 0A and "A" to the LED as 41.
\<close>

theorem writers_encode_text:
  "TextEncoder_encode (str @ js [CHR 0x0A]) = TextEncoder_encode str @ [0x0A]
   \<and> written (trace (snd (sendUART P str s))) =
       written (trace s)
         @ (if characteristics s ''uart:rx'' = None then []
            else [TextEncoder_encode str @ [0x0A]])
   \<and> (written (trace (snd (sendTextToLED P str s))) = written (trace s)
        \<or> written (trace (snd (sendTextToLED P str s))) =
            written (trace s) @ [TextEncoder_encode str])
   \<and> (fst (sendTextToLED P str s) = Inr () \<longrightarrow>
        written (trace (snd (sendTextToLED P str s))) =
          written (trace s) @ [TextEncoder_encode str])
   \<and> TextEncoder_encode (js ''hi'') @ [0x0A] = [0x68, 0x69, 0x0A]
   \<and> TextEncoder_encode (js ''A'') = [0x41]"
  using sendTextToLED_written [of P str s] sendTextToLED_returns [of P str s]
  by (simp only: encode_newline sendUART_written encode_hi encode_A) simp

text \<open>
  Claim C3 on the bench: "hi" sent over the UART that has been started is written as the
  three bytes h, i, line feed; "A" sent to the LED is written as one byte.
\<close>

theorem writers_on_bench:
  "written (trace (snd (sendUART (bench True [] []) (js ''hi'') uart_up))) =
     [[0x68, 0x69, 0x0A]]
   \<and> fst (sendTextToLED (bench True [] []) (js ''A'') linked_up) = Inr ()
   \<and> written (trace (snd (sendTextToLED (bench True [] []) (js ''A'') linked_up))) = [[0x41]]"
proof -
  let ?B = "bench True [] []"
  note uart = writers_encode_text [of "js ''hi''" ?B uart_up, THEN conjunct2, THEN conjunct1]
  note led = writers_encode_text [of "js ''A''" ?B linked_up,
      THEN conjunct2, THEN conjunct2, THEN conjunct2, THEN conjunct1]
  have ok: "fst (sendTextToLED ?B (js ''A'') linked_up) = Inr ()"
    by (simp add: led_defs bench_def linked_up_fields)
  from uart have "written (trace (snd (sendUART ?B (js ''hi'') uart_up))) = [[0x68, 0x69, 0x0A]]"
    by (simp add: uart_up_fields encode_hi)
  moreover from led ok
  have "written (trace (snd (sendTextToLED ?B (js ''A'') linked_up))) = [[0x41]]"
    by (simp add: linked_up_fields encode_A)
  ultimately show ?thesis using ok by simp
qed

subsection \<open>The guards of the two methods\<close>

lemma sendUART_not_started:
  "characteristics s ''uart:rx'' = None \<Longrightarrow>
   sendUART P str s = (Inl (Error ''UART service not started''), s)"
  by (simp add: sendUART_def throw_def)

lemma sendUART_started:
  "characteristics s ''uart:rx'' = Some c \<Longrightarrow>
   sendUART P str s = write_value P c (TextEncoder_encode str @ [0x0A]) s"
  by (simp add: sendUART_def encode_newline)

lemma sendTextToLED_not_connected:
  assumes "\<not> server_connected P s"
  shows "fst (sendTextToLED P str s) = Inl (Error ''GATT not connected'')"
    and "written (trace (snd (sendTextToLED P str s))) = written (trace s)"
    and "services (snd (sendTextToLED P str s)) = services s"
    and "emitted ''error'' (trace (snd (sendTextToLED P str s))) =
           emitted ''error'' (trace s) @ [Failure ''led'' (Error ''GATT not connected'')]"
  using assms
  by (simp_all add: server_connected_def sendTextToLED_def require_connected_def prog_defs
      split: option.splits)

lemma sendTextToLED_opens_service:
  assumes "server s = Some sv" and "connected P sv (outside s)"
    and "services s ''led'' = None"
    and "getPrimaryService P sv LED_SERVICE (outside s) = (Inr svc, p1)"
    and "getCharacteristic P svc LED_TEXT p1 = (Inr c, p2)"
    and "writeValue P c (TextEncoder_encode str) p2 = (Inr (), p3)"
  shows "fst (sendTextToLED P str s) = Inr ()"
    and "services (snd (sendTextToLED P str s)) ''led'' = Some svc"
    and "written (trace (snd (sendTextToLED P str s))) =
           written (trace s) @ [TextEncoder_encode str]"
  using assms by (simp_all add: led_defs)

text \<open>
  Claim C8, as the code has it. \<^verbatim>\<open>sendUART\<close> has one guard: with no \<^verbatim>\<open>uart:rx\<close>
  characteristic in the registry it throws "UART service not started" and does nothing
  else; with one it hands the bytes to \<^verbatim>\<open>writeValue\<close> without looking at the link.
  \<^verbatim>\<open>sendTextToLED\<close> has one guard as well: with no connected server it throws
  "GATT not connected", writes nothing, opens nothing and emits \<^verbatim>\<open>error\<close>. With a connected
  server and no LED service in the registry it does not fail: it asks the platform for
  the service, records it, asks for the text characteristic and writes, and it returns
  normally when the platform grants the three calls.
\<close>

theorem send_guards:
  "(characteristics s ''uart:rx'' = None \<longrightarrow>
      sendUART P str s = (Inl (Error ''UART service not started''), s))
   \<and> (characteristics s ''uart:rx'' = Some c \<longrightarrow>
      sendUART P str s = write_value P c (TextEncoder_encode str @ [0x0A]) s)
   \<and> (\<not> server_connected P s \<longrightarrow>
      fst (sendTextToLED P str s) = Inl (Error ''GATT not connected'')
      \<and> written (trace (snd (sendTextToLED P str s))) = written (trace s)
      \<and> services (snd (sendTextToLED P str s)) = services s
      \<and> emitted ''error'' (trace (snd (sendTextToLED P str s))) =
          emitted ''error'' (trace s) @ [Failure ''led'' (Error ''GATT not connected'')])
   \<and> (server s = Some sv \<and> connected P sv (outside s) \<and> services s ''led'' = None
      \<and> getPrimaryService P sv LED_SERVICE (outside s) = (Inr svc, p1)
      \<and> getCharacteristic P svc LED_TEXT p1 = (Inr c', p2)
      \<and> writeValue P c' (TextEncoder_encode str) p2 = (Inr (), p3) \<longrightarrow>
      fst (sendTextToLED P str s) = Inr ()
      \<and> services (snd (sendTextToLED P str s)) ''led'' = Some svc
      \<and> written (trace (snd (sendTextToLED P str s))) =
          written (trace s) @ [TextEncoder_encode str])"
  using sendUART_not_started [of s P str] sendUART_started [of s c P str]
    sendTextToLED_not_connected [of P s str]
    sendTextToLED_opens_service [of s sv P svc p1 c' p2 str p3]
  by blast

lemma bench_calls:
  "server_connected (bench linked [] []) linked_up = linked"
  "\<not> server_connected (bench linked [] []) fresh"
  "getPrimaryService (bench True [] []) sv LED_SERVICE () = (Inr (GATTService 16), ())"
  "getCharacteristic (bench True [] []) svc LED_TEXT () = (Inr (GATTCharacteristic 17), ())"
  "writeValue (bench True [] []) c bytes () = (Inr (), ())"
  by (simp_all add: server_connected_def bench_def linked_up_fields fresh_fields uuid_defs)

text \<open>
  Claim C8 on the bench: a manager that never connected refuses both sends, each with its
  own message; once the UART is started \<^verbatim>\<open>sendUART\<close> returns; on a connected manager whose
  registry has no LED service \<^verbatim>\<open>sendTextToLED\<close> opens it and returns.
\<close>

theorem send_guards_on_bench:
  "sendUART (bench True [] []) (js ''hi'') fresh =
     (Inl (Error ''UART service not started''), fresh)
   \<and> fst (sendUART (bench True [] []) (js ''hi'') uart_up) = Inr ()
   \<and> fst (sendTextToLED (bench True [] []) (js ''A'') fresh) =
       Inl (Error ''GATT not connected'')
   \<and> fst (sendTextToLED (bench True [] []) (js ''A'') linked_up) = Inr ()
   \<and> services (snd (sendTextToLED (bench True [] []) (js ''A'') linked_up)) ''led'' =
       Some (GATTService 16)"
proof -
  let ?B = "bench True [] []"
  have "sendUART ?B (js ''hi'') fresh = (Inl (Error ''UART service not started''), fresh)"
    using send_guards [where s = fresh and P = ?B and str = "js ''hi''", THEN conjunct1]
    by (simp add: fresh_fields)
  moreover have "fst (sendUART ?B (js ''hi'') uart_up) = Inr ()"
    using send_guards [where s = uart_up and P = ?B and str = "js ''hi''"
          and c = "GATTCharacteristic 2", THEN conjunct2, THEN conjunct1]
    by (simp add: uart_up_fields write_value_def await_def bench_def split: prod.splits)
  moreover have "fst (sendTextToLED ?B (js ''A'') fresh) = Inl (Error ''GATT not connected'')"
    using send_guards [where s = fresh and P = ?B and str = "js ''A''",
        THEN conjunct2, THEN conjunct2, THEN conjunct1]
    by (simp add: bench_calls)
  moreover have "fst (sendTextToLED ?B (js ''A'') linked_up) = Inr ()
     \<and> services (snd (sendTextToLED ?B (js ''A'') linked_up)) ''led'' = Some (GATTService 16)"
    using send_guards [where s = linked_up and P = ?B and str = "js ''A''"
          and sv = "GATTServer 1" and svc = "GATTService 16" and ?p1.0 = "()"
          and c' = "GATTCharacteristic 17" and ?p2.0 = "()" and ?p3.0 = "()",
        THEN conjunct2, THEN conjunct2, THEN conjunct2]
    by (simp add: bench_calls linked_up_fields) (simp add: bench_def)
  ultimately show ?thesis by simp
qed

text \<open>
  Against claim C8 as stated: on a connected manager whose LED service was never opened
  \<^verbatim>\<open>sendTextToLED\<close> does not fail: it returns normally and the byte is written. And with
  the link down while the registry still holds the UART characteristic, \<^verbatim>\<open>sendUART\<close> still
  hands the bytes to the platform, whose rejection is what it throws.
\<close>

theorem led_service_opened_on_demand:
  "services linked_up ''led'' = None
   \<and> server_connected (bench True [] []) linked_up
   \<and> fst (sendTextToLED (bench True [] []) (js ''A'') linked_up) = Inr ()
   \<and> written (trace (snd (sendTextToLED (bench True [] []) (js ''A'') linked_up))) = [[0x41]]
   \<and> \<not> server_connected (bench False [] []) uart_up
   \<and> fst (sendUART (bench False [] []) (js ''hi'') uart_up) = Inl (DOMException ''NetworkError'')
   \<and> written (trace (snd (sendUART (bench False [] []) (js ''hi'') uart_up))) =
       [[0x68, 0x69, 0x0A]]"
proof -
  have led: "fst (sendTextToLED (bench True [] []) (js ''A'') linked_up) = Inr ()"
    by (simp add: led_defs bench_def linked_up_fields)
  have "written (trace (snd (sendTextToLED (bench True [] []) (js ''A'') linked_up))) = [[0x41]]"
    using sendTextToLED_returns [OF led] by (simp add: linked_up_fields encode_A)
  moreover have "\<not> server_connected (bench False [] []) uart_up"
    by (simp add: server_connected_def uart_up_def run_defs)
  moreover have "fst (sendUART (bench False [] []) (js ''hi'') uart_up) =
      Inl (DOMException ''NetworkError'')"
    by (simp add: sendUART_def uart_up_fields write_value_def await_def bench_def)
  moreover have "written (trace (snd (sendUART (bench False [] []) (js ''hi'') uart_up))) =
       [[0x68, 0x69, 0x0A]]"
    by (simp add: sendUART_written uart_up_fields encode_hi)
  ultimately show ?thesis using led by (simp add: linked_up_fields bench_calls)
qed

section \<open>Disconnection\<close>

lemma connect_forget:
  "fst (connect P (forget_link s)) = fst (connect P s) \<and>
   forget_link (snd (connect P (forget_link s))) = forget_link (snd (connect P s))"
  by (simp add: connect_def forget_link_def prog_defs emit_eq split: prod.splits sum.splits)

text \<open>A start method called while the server is not connected stops at its guard.\<close>

lemma guard_stops:
  assumes "\<not> server_connected P s"
  shows "try_catch (bind (require_connected P) k) (failed P key) s =
           (Inl (Error ''GATT not connected''),
            emit P ''service:failed'' (ServiceFailed key (Error ''GATT not connected'')) s)"
  using assms
  by (simp add: server_connected_def require_connected_def failed_def prog_defs
      split: option.splits)

lemma start_disconnected:
  assumes "\<not> server_connected P s" and "e \<in> set (service_table P)"
  shows "start_method e s =
           (Inl (Error ''GATT not connected''),
            emit P ''service:failed'' (ServiceFailed (name e) (Error ''GATT not connected'')) s)"
  using assms(2)
  by (auto simp: service_table_def startUART_def startTemperature_def startAccelerometer_def
      startButtons_def startMagnetometer_def guard_stops [OF assms(1)])

text \<open>
  Claim C4. The disconnect callback is one step of the manager, and it can be taken in
  every state, so also in any state the start sequence passes through. After it both
  registries are empty, so that no service counts as started and \<^verbatim>\<open>sendUART\<close> finds no
  characteristic to write to; \<^verbatim>\<open>disconnection\<close> has been emitted with the name of the
  device, to every callback registered for it; the configuration and the callbacks are as
  before. While the server reports that it is not connected, the start methods stop at
  their guard and put nothing into the registries. The manager is ready for a new
  \<^verbatim>\<open>connect()\<close>: what it still holds of the old link, the device and the server, makes no
  difference to \<^verbatim>\<open>connect()\<close>, which returns and acts as on a manager that has no device,
  no server and empty registries, as the constructor leaves them.
\<close>

theorem disconnection_clears_registries:
  "services (handleDisconnection P s) = Map.empty
   \<and> characteristics (handleDisconnection P s) = Map.empty
   \<and> \<not> isServiceStarted serviceName (handleDisconnection P s)
   \<and> sendUART P str (handleDisconnection P s) =
       (Inl (Error ''UART service not started''), handleDisconnection P s)
   \<and> emitted ''disconnection'' (trace (handleDisconnection P s)) =
       emitted ''disconnection'' (trace s)
         @ [DeviceName (case device s of None \<Rightarrow> None | Some d \<Rightarrow> dev_name d)]
   \<and> calls (trace (handleDisconnection P s)) = calls (trace s) @ registered s ''disconnection''
   \<and> config (handleDisconnection P s) = config s
   \<and> eventHandlers (handleDisconnection P s) = eventHandlers s
   \<and> (\<not> server_connected P s' \<longrightarrow>
        (\<forall>e \<in> set (service_table P).
           fst (start_method e s') = Inl (Error ''GATT not connected'')
           \<and> services (snd (start_method e s')) = services s'
           \<and> characteristics (snd (start_method e s')) = characteristics s'))
   \<and> fst (connect P (handleDisconnection P s)) =
       fst (connect P (forget_link (handleDisconnection P s)))
   \<and> forget_link (snd (connect P (handleDisconnection P s))) =
       forget_link (snd (connect P (forget_link (handleDisconnection P s))))
   \<and> device (forget_link (handleDisconnection P s)) = None
   \<and> server (forget_link (handleDisconnection P s)) = None
   \<and> services (forget_link (handleDisconnection P s)) = Map.empty
   \<and> characteristics (forget_link (handleDisconnection P s)) = Map.empty"
proof -
  have "calls (trace (handleDisconnection P s)) = calls (trace s) @ registered s ''disconnection''"
    by (simp add: handleDisconnection_def emit_eq turns_calls)
  moreover have "emitted ''disconnection'' (trace (handleDisconnection P s)) =
       emitted ''disconnection'' (trace s)
         @ [DeviceName (case device s of None \<Rightarrow> None | Some d \<Rightarrow> dev_name d)]"
    by (simp add: handleDisconnection_def)
  moreover have "sendUART P str (handleDisconnection P s) =
       (Inl (Error ''UART service not started''), handleDisconnection P s)"
    by (rule sendUART_not_started) (simp add: handleDisconnection_def)
  moreover have "\<not> server_connected P s' \<longrightarrow>
        (\<forall>e \<in> set (service_table P).
           fst (start_method e s') = Inl (Error ''GATT not connected'')
           \<and> services (snd (start_method e s')) = services s'
           \<and> characteristics (snd (start_method e s')) = characteristics s')"
    by (simp add: start_disconnected)
  ultimately show ?thesis
    using connect_forget [of P "handleDisconnection P s"]
    by (simp add: handleDisconnection_def isServiceStarted_def forget_link_def)
qed

text \<open>
  Claim C4 on the bench: the UART was started and the link has gone down. After the
  callback the registries are empty, and \<^verbatim>\<open>startTemperature\<close>, the next in the table, stops
  at its guard and leaves them empty.
\<close>

theorem disconnection_on_bench:
  "\<not> server_connected (bench False [] []) (handleDisconnection (bench False [] []) uart_up)
   \<and> Entry ''temperature'' (startTemperature (bench False [] [])) False
       \<in> set (service_table (bench False [] []))
   \<and> fst (startTemperature (bench False [] [])
            (handleDisconnection (bench False [] []) uart_up)) =
       Inl (Error ''GATT not connected'')
   \<and> services (snd (startTemperature (bench False [] [])
                      (handleDisconnection (bench False [] []) uart_up))) = Map.empty
   \<and> characteristics (snd (startTemperature (bench False [] [])
                      (handleDisconnection (bench False [] []) uart_up))) = Map.empty"
proof -
  let ?B = "bench False [] []"
  let ?s = "handleDisconnection ?B uart_up"
  let ?e = "Entry ''temperature'' (startTemperature ?B) False"
  have down: "\<not> server_connected ?B ?s"
    by (simp add: server_connected_def handleDisconnection_def bench_def split: option.splits)
  have mem: "?e \<in> set (service_table ?B)"
    by (simp add: service_table_def)
  note main = disconnection_clears_registries [where P = ?B and s = uart_up and s' = ?s]
  note empty = main [THEN conjunct1] main [THEN conjunct2, THEN conjunct1]
  note stops = main [THEN conjunct2, THEN conjunct2, THEN conjunct2, THEN conjunct2,
      THEN conjunct2, THEN conjunct2, THEN conjunct2, THEN conjunct2, THEN conjunct1,
      THEN mp, OF down, THEN bspec, OF mem]
  from stops empty down mem show ?thesis by simp
qed

end
